theory Spec2Isabelle
  imports Complex_Main "HOL-Library.Multiset"
begin

section \<open>JavaScript numbers\<close>

text \<open>
  The forecasting engine computes on JavaScript numbers. They are modelled as the reals
  extended by the two infinities and by \<open>NaN\<close>, with the IEEE rules for the special
  values. Rounding, overflow of finite values and the sign of zero are not modelled:
  arithmetic on finite values is exact.
\<close>

datatype jsnum = NaN | PInf | NInf | Fin real

instantiation jsnum :: "{plus, minus, uminus, times, inverse, abs, ord}"
begin

fun plus_jsnum :: "jsnum \<Rightarrow> jsnum \<Rightarrow> jsnum" where
  "plus_jsnum (Fin a) (Fin b) = Fin (a + b)"
| "plus_jsnum NaN y = NaN"
| "plus_jsnum x NaN = NaN"
| "plus_jsnum PInf NInf = NaN"
| "plus_jsnum NInf PInf = NaN"
| "plus_jsnum PInf y = PInf"
| "plus_jsnum x PInf = PInf"
| "plus_jsnum NInf y = NInf"
| "plus_jsnum x NInf = NInf"

fun uminus_jsnum :: "jsnum \<Rightarrow> jsnum" where
  "uminus_jsnum (Fin a) = Fin (- a)"
| "uminus_jsnum NaN = NaN"
| "uminus_jsnum PInf = NInf"
| "uminus_jsnum NInf = PInf"

definition minus_jsnum :: "jsnum \<Rightarrow> jsnum \<Rightarrow> jsnum" where
  "minus_jsnum x y = x + (- y)"

text \<open>The sign of an infinite product or quotient: \<open>s\<close> is the sign of the result.\<close>

definition signedInf :: "real \<Rightarrow> jsnum" where
  "signedInf s = (if s = 0 then NaN else if 0 < s then PInf else NInf)"

fun times_jsnum :: "jsnum \<Rightarrow> jsnum \<Rightarrow> jsnum" where
  "times_jsnum (Fin a) (Fin b) = Fin (a * b)"
| "times_jsnum NaN y = NaN"
| "times_jsnum x NaN = NaN"
| "times_jsnum PInf (Fin b) = signedInf b"
| "times_jsnum NInf (Fin b) = signedInf (- b)"
| "times_jsnum (Fin a) PInf = signedInf a"
| "times_jsnum (Fin a) NInf = signedInf (- a)"
| "times_jsnum PInf PInf = PInf"
| "times_jsnum NInf NInf = PInf"
| "times_jsnum PInf NInf = NInf"
| "times_jsnum NInf PInf = NInf"

fun divide_jsnum :: "jsnum \<Rightarrow> jsnum \<Rightarrow> jsnum" where
  "divide_jsnum (Fin a) (Fin b) = (if b = 0 then signedInf a else Fin (a / b))"
| "divide_jsnum NaN y = NaN"
| "divide_jsnum x NaN = NaN"
| "divide_jsnum (Fin a) PInf = Fin 0"
| "divide_jsnum (Fin a) NInf = Fin 0"
| "divide_jsnum PInf (Fin b) = (if 0 \<le> b then PInf else NInf)"
| "divide_jsnum NInf (Fin b) = (if 0 \<le> b then NInf else PInf)"
| "divide_jsnum x y = NaN"

definition inverse_jsnum :: "jsnum \<Rightarrow> jsnum" where
  "inverse_jsnum x = Fin 1 div x"

fun abs_jsnum :: "jsnum \<Rightarrow> jsnum" where
  "abs_jsnum (Fin a) = Fin \<bar>a\<bar>"
| "abs_jsnum NaN = NaN"
| "abs_jsnum PInf = PInf"
| "abs_jsnum NInf = PInf"

text \<open>JavaScript's \<open><\<close> and \<open><=\<close>: every comparison with \<open>NaN\<close> is false.\<close>

fun less_jsnum :: "jsnum \<Rightarrow> jsnum \<Rightarrow> bool" where
  "less_jsnum (Fin a) (Fin b) = (a < b)"
| "less_jsnum NaN y = False"
| "less_jsnum x NaN = False"
| "less_jsnum x NInf = False"
| "less_jsnum PInf y = False"
| "less_jsnum NInf y = True"
| "less_jsnum x PInf = True"

definition less_eq_jsnum :: "jsnum \<Rightarrow> jsnum \<Rightarrow> bool" where
  "less_eq_jsnum x y = (x < y \<or> (x = y \<and> x \<noteq> NaN))"

instance ..

end

text \<open>\<open>isNaN\<close>, truthiness (\<open>x || y\<close> on numbers), \<open>Math.pow(x, 2)\<close>, \<open>Math.sqrt\<close>.\<close>

definition isNaN :: "jsnum \<Rightarrow> bool" where
  "isNaN x = (x = NaN)"

definition truthy :: "jsnum \<Rightarrow> bool" where
  "truthy x = (x \<noteq> NaN \<and> x \<noteq> Fin 0)"

definition orElse :: "jsnum \<Rightarrow> jsnum \<Rightarrow> jsnum" where
  "orElse x y = (if truthy x then x else y)"

definition square :: "jsnum \<Rightarrow> jsnum" where
  "square x = x * x"

fun jsqrt :: "jsnum \<Rightarrow> jsnum" where
  "jsqrt (Fin a) = (if a < 0 then NaN else Fin (sqrt a))"
| "jsqrt PInf = PInf"
| "jsqrt x = NaN"

text \<open>A number that is neither \<open>NaN\<close> nor infinite, and its real value.\<close>

fun isFinite :: "jsnum \<Rightarrow> bool" where
  "isFinite (Fin a) = True"
| "isFinite x = False"

fun toReal :: "jsnum \<Rightarrow> real" where
  "toReal (Fin a) = a"
| "toReal x = 0"

text \<open>\<open>xs.reduce((s, v) => s + v, 0)\<close> and the \<open>sum += \<dots>\<close> loops.\<close>

definition jsum :: "jsnum list \<Rightarrow> jsnum" where
  "jsum xs = foldl (+) (Fin 0) xs"

section \<open>Data model and errors\<close>

record point =
  time :: int
  val :: jsnum

text \<open>One constructor for each \<open>throw new Error(\<dots>)\<close> of the engine.\<close>

datatype error =
    HistoryTooShort
  | InvalidPeriods
  | LinearTooFew
  | LinearDegenerate
  | SingleTooFew
  | DoubleTooFew
  | TripleTooFew nat
  | SmoothingTooFew
  | SimpleMATooFew
  | WeightedMATooFew
  | ExponentialMATooFew
  | MovingAverageTooFew
  | PolynomialTooFew nat
  | PolynomialMin3
  | PolynomialBadDegree
  | SingularMatrix
  | ARTooFew nat
  | ArimaMin20
  | ArimaOrderTooFew nat nat nat nat
  | UnsupportedModel string
  | ModelFailed string error
  | DataFileError

section \<open>Linear regression\<close>

text \<open>
  \<open>linearRegression\<close> of the prediction service: one pass over the points with their
  zero-based index, accumulating the four sums.
\<close>

definition linearSums :: "point list \<Rightarrow> jsnum \<times> jsnum \<times> jsnum \<times> jsnum" where
  "linearSums data =
     foldl (\<lambda>(sumX, sumY, sumXY, sumX2) (index, p).
              let x = Fin (real index); y = val p
              in (sumX + x, sumY + y, sumXY + x * y, sumX2 + x * x))
       (Fin 0, Fin 0, Fin 0, Fin 0) (enumerate 0 data)"

definition linearRegression :: "point list \<Rightarrow> error + (jsnum \<times> jsnum)" where
  "linearRegression data =
     (if length data < 2 then Inl LinearTooFew
      else
        let n = Fin (real (length data));
            (sumX, sumY, sumXY, sumX2) = linearSums data;
            denominator = n * sumX2 - sumX * sumX
        in if denominator = Fin 0 then Inl LinearDegenerate
           else
             let slope = (n * sumXY - sumX * sumY) / denominator;
                 intercept = (sumY - slope * sumX) / n
             in Inr (slope, intercept))"


section \<open>Simplified ARIMA\<close>

text \<open>
  Reading an array element in an arithmetic context: an index outside the array gives
  \<open>undefined\<close>, which arithmetic turns into \<open>NaN\<close>.
\<close>

definition elemAt :: "jsnum list \<Rightarrow> int \<Rightarrow> jsnum" where
  "elemAt xs i = (if 0 \<le> i \<and> i < int (length xs) then xs ! nat i else NaN)"

text \<open>\<open>autocorrelation(data, lag)\<close>.\<close>

definition autocorrelation :: "jsnum list \<Rightarrow> nat \<Rightarrow> jsnum" where
  "autocorrelation data lag =
     (let n = length data in
      if lag \<ge> n then Fin 0
      else
        let mean = jsum data / Fin (real n);
            numerator = jsum (map (\<lambda>i. (data ! i - mean) * (data ! (i + lag) - mean)) [0..<n - lag]);
            denominator = jsum (map (\<lambda>i. square (data ! i - mean)) [0..<n])
        in if denominator = Fin 0 then Fin 0 else numerator / denominator)"

text \<open>
  \<open>difference(data, order)\<close>: the lag-\<open>order\<close> differences, then recursively the
  differences of lower order.
\<close>

fun difference :: "jsnum list \<Rightarrow> nat \<Rightarrow> jsnum list" where
  "difference data order =
     (if order = 0 then data
      else
        let diffed = map (\<lambda>i. data ! i - data ! (i - order)) [order..<length data]
        in if order > 1 then difference diffed (order - 1) else diffed)"

declare difference.simps [simp del]

text \<open>
  \<open>inverseDifference(originalData, diffedData, order)\<close>: the result array starts as a
  copy of \<open>originalData\<close>, grows by one value for each difference, and the part after
  the copy is returned.
\<close>

definition inverseDifference :: "jsnum list \<Rightarrow> jsnum list \<Rightarrow> nat \<Rightarrow> jsnum list" where
  "inverseDifference originalData diffedData order =
     drop (length originalData)
       (foldl (\<lambda>result dv. result @ [elemAt result (int (length result) - int order) + dv])
          originalData diffedData)"

subsection \<open>Gaussian elimination\<close>

text \<open>
  \<open>solveLinearSystem(A, b)\<close>, which \<open>polynomialRegression.js\<close> and \<open>arima.js\<close> each
  define with the same text. The augmented matrix is a list of rows; the model is for a
  matrix \<open>A\<close> with \<open>length A\<close> columns and a vector \<open>b\<close> of that length, which is what
  both callers pass.
\<close>

type_synonym matrix = "jsnum list list"

definition augment :: "matrix \<Rightarrow> jsnum list \<Rightarrow> matrix" where
  "augment A b = map (\<lambda>(row, i). row @ [b ! i]) (zip A [0..<length A])"

definition findMaxRow :: "matrix \<Rightarrow> nat \<Rightarrow> nat \<Rightarrow> nat" where
  "findMaxRow augmented i n =
     foldl (\<lambda>maxRow k. if \<bar>augmented ! maxRow ! i\<bar> < \<bar>augmented ! k ! i\<bar> then k else maxRow)
       i [i + 1..<n]"

definition swapRows :: "matrix \<Rightarrow> nat \<Rightarrow> nat \<Rightarrow> matrix" where
  "swapRows augmented i maxRow =
     (augmented[i := augmented ! maxRow])[maxRow := augmented ! i]"

definition eliminateRow :: "jsnum list \<Rightarrow> nat \<Rightarrow> nat \<Rightarrow> jsnum list \<Rightarrow> jsnum list" where
  "eliminateRow pivotRow i n row =
     (let factor = row ! i / pivotRow ! i
      in foldl (\<lambda>r j. r[j := r ! j - factor * pivotRow ! j]) row [i..<n + 1])"

definition eliminate :: "matrix \<Rightarrow> nat \<Rightarrow> nat \<Rightarrow> matrix" where
  "eliminate augmented i n =
     foldl (\<lambda>a k. a[k := eliminateRow (a ! i) i n (a ! k)]) augmented [i + 1..<n]"

definition pivotTolerance :: jsnum where
  "pivotTolerance = Fin (1 / 10 ^ 10)"

text \<open>The forward loop \<open>for (i = 0; i < n; i++)\<close>, over the list of its indices.\<close>

fun forwardElimination :: "nat \<Rightarrow> nat list \<Rightarrow> matrix \<Rightarrow> error + matrix" where
  "forwardElimination n [] augmented = Inr augmented"
| "forwardElimination n (i # rest) augmented =
     (let swapped = swapRows augmented i (findMaxRow augmented i n)
      in if \<bar>swapped ! i ! i\<bar> < pivotTolerance then Inl SingularMatrix
         else forwardElimination n rest (eliminate swapped i n))"

definition backStep :: "matrix \<Rightarrow> nat \<Rightarrow> jsnum list \<Rightarrow> nat \<Rightarrow> jsnum list" where
  "backStep augmented n x i =
     (let xi = foldl (\<lambda>s j. s - augmented ! i ! j * x ! j) (augmented ! i ! n) [i + 1..<n]
      in x[i := xi / augmented ! i ! i])"

definition solveLinearSystem :: "matrix \<Rightarrow> jsnum list \<Rightarrow> error + jsnum list" where
  "solveLinearSystem A b =
     (let n = length A in
      case forwardElimination n [0..<n] (augment A b) of
        Inl e \<Rightarrow> Inl e
      | Inr augmented \<Rightarrow> Inr (foldl (backStep augmented n) (replicate n NaN) (rev [0..<n])))"

subsection \<open>Autoregression and the model\<close>

definition autoregressive :: "jsnum list \<Rightarrow> nat \<Rightarrow> error + jsnum list" where
  "autoregressive data order =
     (if length data < order + 1 then Inl (ARTooFew (order + 1))
      else
        let acf = map (autocorrelation data) [0..<order + 1];
            R = map (\<lambda>i. map (\<lambda>j. acf ! nat \<bar>int i - int j\<bar>) [0..<order]) [0..<order];
            r = take order (drop 1 acf)
        in solveLinearSystem R r)"

text \<open>
  \<open>arForecast(data, phi, periods)\<close>: the state of the loop is the pair of the
  predictions made so far and the history, which grows by each forecast.
\<close>

definition arForecast :: "jsnum list \<Rightarrow> jsnum list \<Rightarrow> int \<Rightarrow> jsnum list" where
  "arForecast data phi periods =
     (let order = length phi in
      fst (foldl (\<lambda>(predictions, history) i.
                    let forecast =
                          foldl (\<lambda>f j. f + phi ! j * elemAt history (int (length history) - int order + int j))
                            (Fin 0) [0..<order]
                    in (predictions @ [forecast], history @ [forecast]))
             ([], data) [0..<nat periods]))"

record arimaParams =
  param_p :: "nat option"
  param_d :: "nat option"
  param_q :: "nat option"

text \<open>\<open>params.p || 2\<close>: a missing parameter and a parameter \<open>0\<close> both give the default.\<close>

definition natOr :: "nat option \<Rightarrow> nat \<Rightarrow> nat" where
  "natOr x dflt = (case x of None \<Rightarrow> dflt | Some k \<Rightarrow> if k = 0 then dflt else k)"

definition arima :: "point list \<Rightarrow> int \<Rightarrow> arimaParams \<Rightarrow> error + jsnum list" where
  "arima data periods params =
     (if length data < 20 then Inl ArimaMin20
      else
        let values = map val data;
            n = length values;
            p = natOr (param_p params) 2;
            d = natOr (param_d params) 1;
            q = natOr (param_q params) 1
        in if n < p + d + q + 5 then Inl (ArimaOrderTooFew p d q (p + d + q + 5))
           else
             let diffedValues = difference values d;
                 originalStart = take d values
             in case autoregressive diffedValues p of
                  Inl e \<Rightarrow> Inl e
                | Inr phi \<Rightarrow>
                    Inr (inverseDifference originalStart (arForecast diffedValues phi periods) d))"

definition variance :: "jsnum list \<Rightarrow> jsnum" where
  "variance data =
     (let mean = jsum data / Fin (real (length data))
      in jsum (map (\<lambda>v. square (v - mean)) data) / Fin (real (length data)))"

definition autoArima :: "point list \<Rightarrow> arimaParams" where
  "autoArima data =
     (let values = map val data;
          n = length values;
          firstDiff = difference values 1;
          originalVar = variance values;
          diffVar = variance firstDiff;
          d = (if diffVar < originalVar * Fin (8 / 10) \<and> n \<ge> 15 then 1 else 0);
          p = min 2 (n div 10);
          q = min 1 (n div 15)
      in \<lparr>param_p = Some p, param_d = Some d, param_q = Some q\<rparr>)"


section \<open>Moving averages\<close>

text \<open>
  The window of \<open>simpleMovingAverage\<close> and \<open>weightedMovingAverage\<close>: both functions
  start with the same two statements. \<open>windowSize\<close> is \<open>None\<close> for \<open>null\<close> and for a
  missing argument; a given window size is an integer.
\<close>

definition windowFor :: "nat \<Rightarrow> int option \<Rightarrow> nat" where
  "windowFor n windowSize =
     (let w = (case windowSize of
                 None \<Rightarrow> max 2 (int n div 3)
               | Some k \<Rightarrow> if k < 2 then max 2 (int n div 3) else k);
          w = (if w \<ge> int n then int n - 1 else w)
      in nat w)"

definition simpleMovingAverage :: "point list \<Rightarrow> int \<Rightarrow> int option \<Rightarrow> error + jsnum list" where
  "simpleMovingAverage data periods windowSize =
     (if length data < 2 then Inl SimpleMATooFew
      else
        let values = map val data;
            n = length values;
            w = windowFor n windowSize;
            lastWindow = drop (n - w) values;
            avg = jsum lastWindow / Fin (real w);
            trend = (if n \<ge> w * 2
                     then let prevWindow = take w (drop (n - w * 2) values);
                              prevAvg = jsum prevWindow / Fin (real w)
                          in (avg - prevAvg) / Fin (real w)
                     else Fin 0)
        in Inr (map (\<lambda>i. avg + trend * Fin (real (i + 1))) [0..<nat periods]))"

definition weightedMovingAverage :: "point list \<Rightarrow> int \<Rightarrow> int option \<Rightarrow> error + jsnum list" where
  "weightedMovingAverage data periods windowSize =
     (if length data < 2 then Inl WeightedMATooFew
      else
        let values = map val data;
            n = length values;
            w = windowFor n windowSize;
            weightSum = Fin (real (w * (w + 1)) / 2);
            weights = map (\<lambda>i. Fin (real i) / weightSum) [1..<w + 1];
            lastWindow = drop (n - w) values;
            weightedSum = jsum (map (\<lambda>i. lastWindow ! i * weights ! i) [0..<w]);
            trend = (if n \<ge> w * 2
                     then let prevWindow = take w (drop (n - w * 2) values);
                              prevWeightedSum = jsum (map (\<lambda>i. prevWindow ! i * weights ! i) [0..<w])
                          in (weightedSum - prevWeightedSum) / Fin (real w)
                     else Fin 0)
        in Inr (map (\<lambda>i. weightedSum + trend * Fin (real (i + 1))) [0..<nat periods]))"

text \<open>
  The recurrence \<open>s[0] = values[0]\<close>, \<open>s[i] = alpha * values[i] + (1 - alpha) * s[i - 1]\<close>,
  which \<open>exponentialMovingAverage\<close>, \<open>singleExponentialSmoothing\<close> and \<open>optimizeAlpha\<close>
  each write out as a loop that pushes onto an array.
\<close>

definition smoothedSeries :: "jsnum \<Rightarrow> jsnum list \<Rightarrow> jsnum list" where
  "smoothedSeries alpha values =
     foldl (\<lambda>smoothed v. smoothed @ [alpha * v + (Fin 1 - alpha) * last smoothed])
       [elemAt values 0] (tl values)"

definition exponentialMovingAverage :: "point list \<Rightarrow> int \<Rightarrow> jsnum option \<Rightarrow> error + jsnum list" where
  "exponentialMovingAverage data periods alphaArg =
     (if length data < 2 then Inl ExponentialMATooFew
      else
        let alpha = (case alphaArg of None \<Rightarrow> Fin (3 / 10) | Some a \<Rightarrow> a);
            alpha = (if alpha \<le> Fin 0 \<or> Fin 1 \<le> alpha then Fin (3 / 10) else alpha);
            values = map val data;
            n = length values;
            ema = smoothedSeries alpha values;
            trend = (if n \<ge> 3
                     then let recentEma = drop (length ema - 3) ema
                          in (recentEma ! 2 - recentEma ! 0) / Fin 2
                     else Fin 0);
            lastEma = ema ! (n - 1)
        in Inr (map (\<lambda>i. lastEma + trend * Fin (real (i + 1))) [0..<nat periods]))"

record maOptions =
  opt_windowSize :: "int option"
  opt_alpha :: "jsnum option"

definition movingAverage :: "point list \<Rightarrow> int \<Rightarrow> string \<Rightarrow> maOptions \<Rightarrow> error + jsnum list" where
  "movingAverage data periods type0 options =
     (if length data < 2 then Inl MovingAverageTooFew
      else
        let type = (if type0 = ''auto'' then ''simple'' else type0)
        in if type = ''simple'' then simpleMovingAverage data periods (opt_windowSize options)
           else if type = ''weighted'' then weightedMovingAverage data periods (opt_windowSize options)
           else if type = ''exponential'' then exponentialMovingAverage data periods (opt_alpha options)
           else simpleMovingAverage data periods (opt_windowSize options))"


section \<open>Exponential smoothing\<close>

text \<open>
  The grid search of \<open>optimizeAlpha\<close>. The candidates \<open>0.1, 0.2, \<dots>, 0.9\<close> of the
  loop \<open>alpha += 0.1\<close> and the start \<open>Math.floor(values.length * 0.7)\<close> of the test
  window are taken exactly. In floating-point arithmetic the candidates differ from these
  in the last digits, and the product \<open>values.length * 0.7\<close> can fall just below an
  integer, so that the program's window starts one place earlier (at 62 instead of 63 for
  90 values).
\<close>

definition testWindowMse :: "jsnum list \<Rightarrow> (nat \<Rightarrow> jsnum) \<Rightarrow> jsnum" where
  "testWindowMse values forecastFor =
     (let n = length values;
          testStart = (7 * n) div 10;
          mse = foldl (\<lambda>mse i. let err = values ! i - forecastFor i in mse + err * err)
                  (Fin 0) [testStart..<n]
      in mse / Fin (real (n - testStart)))"

definition optimizeAlpha :: "jsnum list \<Rightarrow> jsnum" where
  "optimizeAlpha values =
     (let (bestAlpha, bestMSE) =
            foldl (\<lambda>(bestAlpha, bestMSE) alpha.
                     let smoothed = smoothedSeries alpha values;
                         mse = testWindowMse values (\<lambda>i. elemAt smoothed (int i - 1))
                     in if mse < bestMSE then (alpha, mse) else (bestAlpha, bestMSE))
              (Fin (3 / 10), PInf) (map (\<lambda>k. Fin (real k / 10)) [1..<10])
      in if isNaN bestAlpha \<or> bestAlpha \<le> Fin 0 \<or> Fin 1 \<le> bestAlpha then Fin (3 / 10)
         else bestAlpha)"

text \<open>
  Holt's recurrence for level and trend, written out as a loop in
  \<open>doubleExponentialSmoothing\<close> and in \<open>optimizeBeta\<close>.
\<close>

definition holtSeries :: "jsnum \<Rightarrow> jsnum \<Rightarrow> jsnum list \<Rightarrow> jsnum list \<times> jsnum list" where
  "holtSeries alpha beta values =
     foldl (\<lambda>(level, trend) i.
              let prevLevel = level ! (i - 1);
                  prevTrend = trend ! (i - 1);
                  newLevel = alpha * values ! i + (Fin 1 - alpha) * (prevLevel + prevTrend);
                  newTrend = beta * (newLevel - prevLevel) + (Fin 1 - beta) * prevTrend
              in (level @ [newLevel], trend @ [newTrend]))
       ([elemAt values 0], [elemAt values 1 - elemAt values 0]) [1..<length values]"

definition optimizeBeta :: "jsnum list \<Rightarrow> jsnum \<Rightarrow> jsnum" where
  "optimizeBeta values alpha =
     (let (bestBeta, bestMSE) =
            foldl (\<lambda>(bestBeta, bestMSE) beta.
                     let (level, trend) = holtSeries alpha beta values;
                         mse = testWindowMse values
                                 (\<lambda>i. elemAt level (int i - 1) + elemAt trend (int i - 1))
                     in if mse < bestMSE then (beta, mse) else (bestBeta, bestMSE))
              (Fin (1 / 10), PInf) (map (\<lambda>k. Fin (real k / 20)) [1..<11])
      in if isNaN bestBeta \<or> bestBeta \<le> Fin 0 \<or> Fin 1 \<le> bestBeta then Fin (1 / 10)
         else bestBeta)"

text \<open>
  A smoothing parameter that is \<open>null\<close> or outside the open interval from 0 to 1 is
  replaced (\<open>alpha === null || alpha <= 0 || alpha >= 1\<close>).
\<close>

definition paramOr :: "jsnum option \<Rightarrow> jsnum \<Rightarrow> jsnum" where
  "paramOr x dflt =
     (case x of None \<Rightarrow> dflt
      | Some a \<Rightarrow> if a \<le> Fin 0 \<or> Fin 1 \<le> a then dflt else a)"

text \<open>
  The fallback of the three smoothing functions when the last level or trend is \<open>NaN\<close>:
  \<open>values[n - 1] || (n > 1 ? values[n - 2] : 0)\<close>, and 0 if that is \<open>NaN\<close>.
\<close>

definition fallbackPredictions :: "jsnum list \<Rightarrow> int \<Rightarrow> jsnum list" where
  "fallbackPredictions values periods =
     (let n = length values;
          fallbackValue = orElse (values ! (n - 1)) (if n > 1 then values ! (n - 2) else Fin 0)
      in map (\<lambda>i. if isNaN fallbackValue then Fin 0 else fallbackValue) [0..<nat periods])"

definition singleExponentialSmoothing :: "point list \<Rightarrow> int \<Rightarrow> jsnum option \<Rightarrow> error + jsnum list" where
  "singleExponentialSmoothing data periods alphaArg =
     (if length data < 3 then Inl SingleTooFew
      else
        let values = map val data;
            n = length values;
            alpha = paramOr alphaArg (optimizeAlpha values);
            smoothed = smoothedSeries alpha values;
            lastSmoothed = smoothed ! (n - 1)
        in if isNaN lastSmoothed then Inr (fallbackPredictions values periods)
           else Inr (map (\<lambda>i. if isNaN lastSmoothed then Fin 0 else lastSmoothed) [0..<nat periods]))"

definition doubleExponentialSmoothing ::
    "point list \<Rightarrow> int \<Rightarrow> jsnum option \<Rightarrow> jsnum option \<Rightarrow> error + jsnum list" where
  "doubleExponentialSmoothing data periods alphaArg betaArg =
     (if length data < 3 then Inl DoubleTooFew
      else
        let values = map val data;
            n = length values;
            alpha = paramOr alphaArg (optimizeAlpha values);
            beta = paramOr betaArg (optimizeBeta values alpha);
            (level, trend) = holtSeries alpha beta values;
            lastLevel = level ! (n - 1);
            lastTrend = trend ! (n - 1)
        in if isNaN lastLevel \<or> isNaN lastTrend then Inr (fallbackPredictions values periods)
           else Inr (map (\<lambda>i. let forecast = lastLevel + Fin (real (i + 1)) * lastTrend
                               in if isNaN forecast then Fin 0 else forecast) [0..<nat periods]))"


text \<open>
  The mean of the values at one phase of the season, \<open>values[i], values[i + seasonLength], \<dots>\<close>,
  computed by the same inner loop in \<open>tripleExponentialSmoothing\<close> and in
  \<open>detectSeasonality\<close>; \<open>dflt\<close> is the value for a phase without values. The season
  length is a positive integer.
\<close>

definition phaseMean :: "jsnum list \<Rightarrow> nat \<Rightarrow> nat \<Rightarrow> jsnum \<Rightarrow> jsnum" where
  "phaseMean values seasonLength i dflt =
     (let js = filter (\<lambda>j. (j - i) mod seasonLength = 0) [i..<length values];
          sum = jsum (map (\<lambda>j. values ! j) js);
          count = length js
      in if count > 0 then sum / Fin (real count) else dflt)"

definition holtWintersSeries ::
    "jsnum \<Rightarrow> jsnum \<Rightarrow> jsnum \<Rightarrow> nat \<Rightarrow> jsnum list \<Rightarrow> jsnum list \<times> jsnum list \<times> jsnum list" where
  "holtWintersSeries alpha beta gamma seasonLength values =
     (let n = length values;
          seasonal = map (\<lambda>i. phaseMean values seasonLength i (Fin 1)) [0..<seasonLength];
          avgSeasonal = jsum seasonal / Fin (real seasonLength);
          seasonal = map (\<lambda>s. s / avgSeasonal) seasonal;
          level = [elemAt values 0 / elemAt seasonal 0];
          trend = [(elemAt values (int seasonLength) / elemAt seasonal (int seasonLength)
                     - elemAt values 0 / elemAt seasonal 0) / Fin (real seasonLength)]
      in foldl (\<lambda>(level, trend, seasonal) i.
                  let prevLevel = level ! (i - 1);
                      prevTrend = trend ! (i - 1);
                      seasonIndex = i mod seasonLength;
                      prevSeasonal = seasonal ! seasonIndex;
                      newLevel = alpha * (values ! i / prevSeasonal)
                                 + (Fin 1 - alpha) * (prevLevel + prevTrend);
                      newTrend = beta * (newLevel - prevLevel) + (Fin 1 - beta) * prevTrend
                  in (level @ [newLevel], trend @ [newTrend],
                      seasonal[seasonIndex := gamma * (values ! i / newLevel)
                                              + (Fin 1 - gamma) * prevSeasonal]))
           (level, trend, seasonal) [1..<n])"

definition tripleExponentialSmoothing ::
    "point list \<Rightarrow> int \<Rightarrow> nat \<Rightarrow> jsnum option \<Rightarrow> jsnum option \<Rightarrow> jsnum option
       \<Rightarrow> error + jsnum list" where
  "tripleExponentialSmoothing data periods seasonLength alphaArg betaArg gammaArg =
     (if length data < seasonLength * 2 then Inl (TripleTooFew (seasonLength * 2))
      else
        let values = map val data;
            n = length values;
            alpha = paramOr alphaArg (Fin (3 / 10));
            beta = paramOr betaArg (Fin (1 / 10));
            gamma = paramOr gammaArg (Fin (3 / 10));
            (level, trend, seasonal) = holtWintersSeries alpha beta gamma seasonLength values;
            lastLevel = level ! (n - 1);
            lastTrend = trend ! (n - 1)
        in if isNaN lastLevel \<or> isNaN lastTrend then Inr (fallbackPredictions values periods)
           else Inr (map (\<lambda>i. let seasonIndex = (n + i) mod seasonLength;
                                   seasonalFactor = orElse (seasonal ! seasonIndex) (Fin 1);
                                   forecast = (lastLevel + Fin (real (i + 1)) * lastTrend) * seasonalFactor
                               in if isNaN forecast then Fin 0 else forecast) [0..<nat periods]))"

text \<open>\<open>Math.max(...values)\<close> and \<open>Math.min(...values)\<close>: \<open>NaN\<close> if a value is \<open>NaN\<close>.\<close>

definition maxOf :: "jsnum list \<Rightarrow> jsnum" where
  "maxOf xs = (if NaN \<in> set xs then NaN else foldl (\<lambda>m x. if m < x then x else m) NInf xs)"

definition minOf :: "jsnum list \<Rightarrow> jsnum" where
  "minOf xs = (if NaN \<in> set xs then NaN else foldl (\<lambda>m x. if x < m then x else m) PInf xs)"

text \<open>\<open>detectTrend\<close> accumulates the same four sums as \<open>linearRegression\<close>.\<close>

definition detectTrend :: "point list \<Rightarrow> bool" where
  "detectTrend data =
     (let values = map val data;
          n = Fin (real (length values));
          (sumX, sumY, sumXY, sumX2) = linearSums data;
          slope = (n * sumXY - sumX * sumY) / (n * sumX2 - sumX * sumX);
          threshold = (maxOf values - minOf values) / n
      in threshold * Fin (1 / 10) < \<bar>slope\<bar>)"

definition detectSeasonality :: "point list \<Rightarrow> nat \<Rightarrow> bool" where
  "detectSeasonality data seasonLength =
     (let values = map val data;
          seasonalMeans = map (\<lambda>i. phaseMean values seasonLength i (Fin 0)) [0..<seasonLength];
          overallMean = jsum seasonalMeans / Fin (real seasonLength);
          variance = jsum (map (\<lambda>v. square (v - overallMean)) seasonalMeans) / Fin (real seasonLength);
          cv = jsqrt variance / overallMean
      in Fin (1 / 10) < cv)"

definition exponentialSmoothing :: "point list \<Rightarrow> int \<Rightarrow> string \<Rightarrow> nat \<Rightarrow> error + jsnum list" where
  "exponentialSmoothing data periods type0 seasonLength =
     (if length data < 3 then Inl SmoothingTooFew
      else
        let type =
              (if type0 = ''auto''
               then if length data \<ge> seasonLength * 2
                    then if detectSeasonality data seasonLength then ''triple''
                         else if detectTrend data then ''double'' else ''single''
                    else if detectTrend data then ''double'' else ''single''
               else type0)
        in if type = ''single'' then singleExponentialSmoothing data periods None
           else if type = ''double'' then doubleExponentialSmoothing data periods None None
           else if type = ''triple'' then tripleExponentialSmoothing data periods seasonLength None None None
           else singleExponentialSmoothing data periods None)"


section \<open>Polynomial regression\<close>

text \<open>
  The regression variable is the index \<open>0, \<dots>, n - 1\<close>, so \<open>Math.pow(x[k], i)\<close> is a
  power of a natural number.
\<close>

definition calculatePolynomialCoefficients :: "point list \<Rightarrow> nat \<Rightarrow> error + jsnum list" where
  "calculatePolynomialCoefficients data degree =
     (if length data < degree + 1 then Inl (PolynomialTooFew (degree + 1))
      else
        let n = length data;
            y = map val data;
            AtA = map (\<lambda>i. map (\<lambda>j. jsum (map (\<lambda>k. Fin (real k ^ i) * Fin (real k ^ j)) [0..<n]))
                              [0..<degree + 1]) [0..<degree + 1];
            Aty = map (\<lambda>i. jsum (map (\<lambda>k. Fin (real k ^ i) * y ! k) [0..<n])) [0..<degree + 1]
        in solveLinearSystem AtA Aty)"

definition evaluatePolynomial :: "jsnum list \<Rightarrow> nat \<Rightarrow> jsnum" where
  "evaluatePolynomial coeffs x =
     jsum (map (\<lambda>i. coeffs ! i * Fin (real x ^ i)) [0..<length coeffs])"

text \<open>
  \<open>polynomialRegression2\<close> and \<open>polynomialRegression3\<close> have the same body but for the
  degree.
\<close>

definition polynomialForecast :: "nat \<Rightarrow> point list \<Rightarrow> int \<Rightarrow> error + jsnum list" where
  "polynomialForecast degree data periods =
     (case calculatePolynomialCoefficients data degree of
        Inl e \<Rightarrow> Inl e
      | Inr coeffs \<Rightarrow>
          let n = length data
          in Inr (map (\<lambda>i. evaluatePolynomial coeffs (n + i)) [0..<nat periods]))"

definition polynomialRegression2 :: "point list \<Rightarrow> int \<Rightarrow> error + jsnum list" where
  "polynomialRegression2 = polynomialForecast 2"

definition polynomialRegression3 :: "point list \<Rightarrow> int \<Rightarrow> error + jsnum list" where
  "polynomialRegression3 = polynomialForecast 3"

definition polynomialRegressionAuto :: "point list \<Rightarrow> int \<Rightarrow> error + jsnum list" where
  "polynomialRegressionAuto data periods =
     (if length data < 4 then polynomialRegression2 data periods
      else
        let (bestDegree, bestR2) =
              foldl (\<lambda>(bestDegree, bestR2) degree.
                       if length data < degree + 1 then (bestDegree, bestR2)
                       else
                         case calculatePolynomialCoefficients data degree of
                           Inl e \<Rightarrow> (bestDegree, bestR2)
                         | Inr coeffs \<Rightarrow>
                             let n = length data;
                                 yMean = jsum (map val data) / Fin (real n);
                                 ssRes = jsum (map (\<lambda>i. square (val (data ! i) - evaluatePolynomial coeffs i)) [0..<n]);
                                 ssTot = jsum (map (\<lambda>i. square (val (data ! i) - yMean)) [0..<n]);
                                 r2 = Fin 1 - ssRes / ssTot
                             in if bestR2 < r2 then (degree, r2) else (bestDegree, bestR2))
                (2, NInf) [2, 3]
        in if bestDegree = 2 then polynomialRegression2 data periods
           else polynomialRegression3 data periods)"

datatype degreeArg = Auto | Degree int

definition polynomialRegression :: "point list \<Rightarrow> int \<Rightarrow> degreeArg \<Rightarrow> error + jsnum list" where
  "polynomialRegression data periods degree =
     (if length data < 3 then Inl PolynomialMin3
      else if degree = Auto then polynomialRegressionAuto data periods
      else if degree = Degree 2 then polynomialRegression2 data periods
      else if degree = Degree 3 then polynomialRegression3 data periods
      else Inl PolynomialBadDegree)"

section \<open>The forecasting orchestrator\<close>

text \<open>
  Times are integers. \<open>a % b\<close> is the remainder of the division that truncates;
  \<open>Math.floor(a / b)\<close> is \<open>div\<close>.
\<close>

definition jsRem :: "int \<Rightarrow> int \<Rightarrow> int" where
  "jsRem a b = sgn a * (\<bar>a\<bar> mod \<bar>b\<bar>)"

text \<open>
  \<open>String(t).length === 6 && parseInt(t) >= 100000 && parseInt(t) <= 999999\<close>: for an
  integer \<open>t\<close> the two bounds imply the six digits.
\<close>

definition isYearMonth :: "int \<Rightarrow> bool" where
  "isYearMonth t = (100000 \<le> t \<and> t \<le> 999999)"

text \<open>The number of months from one year-month time to another, as \<open>detectTimeInterval\<close>
  computes it for two consecutive points.\<close>

definition monthDiff :: "int \<Rightarrow> int \<Rightarrow> int" where
  "monthDiff time1 time2 =
     (let year1 = time1 div 100; month1 = jsRem time1 100;
          year2 = time2 div 100; month2 = jsRem time2 100
      in (year2 - year1) * 12 + (month2 - month1))"

text \<open>
  \<open>detectTimeInterval\<close>. The keys of the object \<open>intervalCounts\<close> are positive integers,
  which \<open>Object.keys\<close> lists in ascending order when they are below \<open>2\<^sup>3\<^sup>2 - 1\<close>, as the
  differences of years and of year-month times are; larger keys, which the program lists in
  the order of their insertion, are outside this model.
\<close>

definition detectTimeInterval :: "point list \<Rightarrow> int" where
  "detectTimeInterval timeSeriesData =
     (if length timeSeriesData < 2 then 1
      else
        let firstTime = time (timeSeriesData ! 0);
            yearMonth = isYearMonth firstTime;
            intervals =
              concat (map (\<lambda>i.
                 let time1 = time (timeSeriesData ! (i - 1));
                     time2 = time (timeSeriesData ! i)
                 in if yearMonth
                    then if monthDiff time1 time2 > 0 then [monthDiff time1 time2] else []
                    else let yearDiff = time2 - time1
                         in if yearDiff > 0 then [yearDiff] else [])
                [1..<length timeSeriesData])
        in if intervals = [] then 1
           else
             let keys = sort (remdups intervals);
                 (mostCommonInterval, maxCount) =
                   foldl (\<lambda>(mostCommonInterval, maxCount) interval.
                            if count_list intervals interval > maxCount
                            then (interval, count_list intervals interval)
                            else (mostCommonInterval, maxCount))
                     (1, 0) keys
             in mostCommonInterval)"


text \<open>
  The request's \<open>modelParams\<close>; \<open>None\<close> is a missing property. Orders, season length
  and window size are integers, a degree is a number (the string \<open>auto\<close> behaves as a
  missing degree).
\<close>

record modelParams =
  mp_type :: "string option"
  mp_seasonLength :: "nat option"
  mp_windowSize :: "int option"
  mp_alpha :: "jsnum option"
  mp_degree :: "int option"
  mp_p :: "nat option"
  mp_d :: "nat option"
  mp_q :: "nat option"

text \<open>\<open>modelParams.type || 'auto'\<close>: the empty string is falsy too.\<close>

definition strOr :: "string option \<Rightarrow> string \<Rightarrow> string" where
  "strOr x dflt = (case x of None \<Rightarrow> dflt | Some s \<Rightarrow> if s = [] then dflt else s)"

text \<open>The \<open>switch (model)\<close> inside the \<open>try\<close> block of \<open>generatePrediction\<close>.\<close>

definition dispatchModel :: "point list \<Rightarrow> int \<Rightarrow> string \<Rightarrow> modelParams \<Rightarrow> error + jsnum list" where
  "dispatchModel hist periods modelName params =
     (if modelName = ''linear''
      then case linearRegression hist of
             Inl e \<Rightarrow> Inl e
           | Inr (slope, intercept) \<Rightarrow>
               Inr (map (\<lambda>i. let x = Fin (real (length hist + i)) in slope * x + intercept)
                      [0..<nat periods])
      else if modelName = ''exponential''
      then let expType = strOr (mp_type params) ''auto'';
               seasonLength = natOr (mp_seasonLength params) 12
           in exponentialSmoothing hist periods expType seasonLength
      else if modelName = ''movingAverage''
      then let maType = strOr (mp_type params) ''auto''
           in movingAverage hist periods maType
                \<lparr>opt_windowSize = mp_windowSize params, opt_alpha = mp_alpha params\<rparr>
      else if modelName = ''polynomial''
      then let degree = (case mp_degree params of
                           None \<Rightarrow> Auto
                         | Some k \<Rightarrow> if k = 0 then Auto else Degree k)
           in polynomialRegression hist periods degree
      else if modelName = ''arima''
      then let arimaParams =
                 (if natOr (mp_p params) 0 \<noteq> 0 \<or> natOr (mp_d params) 0 \<noteq> 0
                     \<or> natOr (mp_q params) 0 \<noteq> 0
                  then \<lparr>param_p = Some (natOr (mp_p params) 2),
                        param_d = Some (natOr (mp_d params) 1),
                        param_q = Some (natOr (mp_q params) 1)\<rparr>
                  else autoArima hist)
           in arima hist periods arimaParams
      else Inl (UnsupportedModel modelName))"

record rpoint = point +
  isPrediction :: bool

record statistics =
  avgValue :: jsnum
  lastValue :: jsnum
  predictedValue :: "jsnum option"
  growthRate :: "jsnum option"
  truncatedCount :: nat

record predictionResult =
  predictions :: "rpoint list"
  historicalData :: "rpoint list"
  statistics :: statistics
  timeInterval :: int
  timeFormat :: string
  model :: string

text \<open>The time of the \<open>i\<close>-th predicted point, the body of the loop over \<open>i\<close>.\<close>

definition nextTime :: "int \<Rightarrow> string \<Rightarrow> int \<Rightarrow> nat \<Rightarrow> int" where
  "nextTime lastTime fmt interval i =
     (if fmt = ''yearmonth''
      then let year = lastTime div 100;
               month = jsRem lastTime 100;
               intervalMonths = interval * (int i + 1);
               nextMonth = month + intervalMonths
           in if nextMonth > 12
              then (year + (nextMonth - 1) div 12) * 100 + (jsRem (nextMonth - 1) 12 + 1)
              else year * 100 + nextMonth
      else lastTime + interval * (int i + 1))"

definition generatePrediction ::
    "point list \<Rightarrow> int \<Rightarrow> string \<Rightarrow> int \<Rightarrow> string \<Rightarrow> modelParams \<Rightarrow> error + predictionResult" where
  "generatePrediction hist periods modelName interval fmt params =
     (if length hist < 2 then Inl HistoryTooShort
      else if periods \<le> 0 then Inl InvalidPeriods
      else
        case dispatchModel hist periods modelName params of
          Inl e \<Rightarrow> Inl (ModelFailed modelName e)
        | Inr preds \<Rightarrow>
            let lastTime = time (hist ! (length hist - 1));
                predictionTimes = map (nextTime lastTime fmt interval) [0..<nat periods];
                avg = jsum (map val hist) / Fin (real (length hist));
                lastV = val (hist ! (length hist - 1));
                predicted = (if length preds > 0 then Some (preds ! (length preds - 1)) else None);
                growth = (case predicted of
                            None \<Rightarrow> None
                          | Some pv \<Rightarrow>
                              if lastV \<noteq> Fin 0 then Some ((pv - lastV) / lastV * Fin 100)
                              else None);
                validPredictions = map (\<lambda>v. if isNaN v then Fin 0 else v) preds
            in Inr \<lparr>predictions =
                       map (\<lambda>(index, v). \<lparr>time = predictionTimes ! index, val = v, isPrediction = True\<rparr>)
                         (enumerate 0 validPredictions),
                     historicalData =
                       map (\<lambda>item. \<lparr>time = time item, val = val item, isPrediction = False\<rparr>) hist,
                     statistics = \<lparr>avgValue = avg, lastValue = lastV, predictedValue = predicted,
                                    growthRate = growth, truncatedCount = 0\<rparr>,
                     timeInterval = interval, timeFormat = fmt, model = modelName\<rparr>)"

text \<open>
  \<open>validateModelDataRequirements\<close>: \<open>requirements[model] || 2\<close>. A model name that is
  an inherited property of every object, such as \<open>constructor\<close>, for which the lookup
  gives a function and the check fails for every length, is outside this model.
\<close>

definition minRequired :: "string \<Rightarrow> nat" where
  "minRequired modelName =
     (if modelName = ''linear'' then 2
      else if modelName = ''exponential'' then 3
      else if modelName = ''movingAverage'' then 2
      else if modelName = ''polynomial'' then 3
      else if modelName = ''arima'' then 20
      else 2)"

definition validateModelDataRequirements :: "string \<Rightarrow> nat \<Rightarrow> bool" where
  "validateModelDataRequirements modelName dataLength = (dataLength \<ge> minRequired modelName)"


section \<open>The data service and the prediction controller\<close>

text \<open>
  A row of a loaded data file. \<open>data2\<close> holds the number that \<open>parseFloat(item.data2)\<close>
  gives; reading the file (\<open>loadDataFile\<close>) is a parameter, \<open>None\<close> when it throws.
\<close>

record row =
  area :: string
  data_name :: string
  repp :: int
  data2 :: jsnum

text \<open>
  \<open>getTimeSeriesData\<close>: filter (the predicate \<open>selected\<close> is the callback of
  \<open>data.filter\<close>), sort by time (\<open>Array.prototype.sort\<close> is stable), map to points. A
  missing option and an empty string or a zero are falsy, and then the filter is off.
  Only the fields \<open>time\<close> and \<open>value\<close> of the points are kept: the engine reads no other.
\<close>

definition selected :: "string option \<Rightarrow> string option \<Rightarrow> int option \<Rightarrow> int option \<Rightarrow> row \<Rightarrow> bool" where
  "selected areaArg indicatorArg startTime endTime item =
     (\<not> (strOr areaArg [] \<noteq> [] \<and> area item \<noteq> strOr areaArg [])
      \<and> \<not> (strOr indicatorArg [] \<noteq> [] \<and> data_name item \<noteq> strOr indicatorArg [])
      \<and> (case startTime of
             None \<Rightarrow> True
           | Some startT \<Rightarrow> startT = 0 \<or> \<not> repp item < startT)
      \<and> (case endTime of
             None \<Rightarrow> True
           | Some endT \<Rightarrow> endT = 0 \<or> \<not> repp item > endT))"

definition getTimeSeriesData ::
    "(string \<Rightarrow> row list option) \<Rightarrow> string \<Rightarrow> string option \<Rightarrow> string option \<Rightarrow> int option
       \<Rightarrow> int option \<Rightarrow> error + point list" where
  "getTimeSeriesData loadDataFile file areaArg indicatorArg startTime endTime =
     (case loadDataFile file of
        None \<Rightarrow> Inl DataFileError
      | Some rows \<Rightarrow>
          let filteredData = filter (selected areaArg indicatorArg startTime endTime) rows;
              sortedData = sort_key repp filteredData
          in Inr (map (\<lambda>item. \<lparr>time = repp item, val = orElse (data2 item) (Fin 0)\<rparr>) sortedData))"

record request =
  req_filename :: "string option"
  req_area :: "string option"
  req_indicator :: "string option"
  req_startTime :: "int option"
  req_endTime :: "int option"
  req_period :: "int option"
  req_model :: "string option"
  req_modelParams :: "modelParams option"

datatype badRequest =
    MissingFilename
  | MissingArea
  | MissingIndicator
  | MissingTimeRange
  | PeriodNotPositive
  | HistoryInsufficient
  | ModelNeedsMore string nat nat

datatype response = BadRequest badRequest | ServerError error | Success predictionResult

text \<open>The empty \<open>modelParams\<close> object, the default of the controller and the orchestrator.\<close>

definition noParams :: modelParams where
  "noParams = \<lparr>mp_type = None, mp_seasonLength = None, mp_windowSize = None, mp_alpha = None,
                mp_degree = None, mp_p = None, mp_d = None, mp_q = None\<rparr>"

definition predict :: "(string \<Rightarrow> row list option) \<Rightarrow> request \<Rightarrow> response" where
  "predict loadDataFile req =
     (let modelName = (case req_model req of None \<Rightarrow> ''linear'' | Some m \<Rightarrow> m);
          params = (case req_modelParams req of None \<Rightarrow> noParams | Some mp \<Rightarrow> mp)
      in if strOr (req_filename req) [] = [] then BadRequest MissingFilename
         else if strOr (req_area req) [] = [] then BadRequest MissingArea
         else if strOr (req_indicator req) [] = [] then BadRequest MissingIndicator
         else if req_startTime req = None \<or> req_startTime req = Some 0
                 \<or> req_endTime req = None \<or> req_endTime req = Some 0
         then BadRequest MissingTimeRange
         else
           case req_period req of
             None \<Rightarrow> BadRequest PeriodNotPositive
           | Some period \<Rightarrow>
               if period \<le> 0 then BadRequest PeriodNotPositive
               else
                 case getTimeSeriesData loadDataFile (strOr (req_filename req) [])
                        (req_area req) (req_indicator req) (req_startTime req) (req_endTime req) of
                   Inl e \<Rightarrow> ServerError e
                 | Inr timeSeriesData \<Rightarrow>
                     if length timeSeriesData < 2 then BadRequest HistoryInsufficient
                     else
                       let firstTime = time (timeSeriesData ! 0);
                           fmt = (if isYearMonth firstTime then ''yearmonth'' else ''year'')
                       in if \<not> validateModelDataRequirements modelName (length timeSeriesData)
                          then BadRequest
                                 (ModelNeedsMore modelName (minRequired modelName) (length timeSeriesData))
                          else
                            case generatePrediction timeSeriesData period modelName
                                   (detectTimeInterval timeSeriesData) fmt params of
                              Inl e \<Rightarrow> ServerError e
                            | Inr r \<Rightarrow> Success r)"

text \<open>
  The first four checks of the controller pass: file name, area, indicator and both ends
  of the time range are given.
\<close>

definition requiredFieldsPresent :: "request \<Rightarrow> bool" where
  "requiredFieldsPresent req =
     (strOr (req_filename req) [] \<noteq> [] \<and> strOr (req_area req) [] \<noteq> []
      \<and> strOr (req_indicator req) [] \<noteq> []
      \<and> req_startTime req \<noteq> None \<and> req_startTime req \<noteq> Some 0
      \<and> req_endTime req \<noteq> None \<and> req_endTime req \<noteq> Some 0)"

text \<open>
  The closed form of ordinary least squares over the index sequence, as the specification
  writes it, for real values \<open>ys\<close>: \<open>slope = (n\<Sigma>xy - \<Sigma>x\<Sigma>y) / (n\<Sigma>x\<^sup>2 - (\<Sigma>x)\<^sup>2)\<close> and
  \<open>intercept = (\<Sigma>y - slope \<cdot> \<Sigma>x) / n\<close>.
\<close>

definition olsDenominator :: "nat \<Rightarrow> real" where
  "olsDenominator n = real n * (\<Sum>i<n. (real i)\<^sup>2) - (\<Sum>i<n. real i)\<^sup>2"

definition olsSlope :: "real list \<Rightarrow> real" where
  "olsSlope ys =
     (real (length ys) * (\<Sum>i<length ys. real i * ys ! i)
        - (\<Sum>i<length ys. real i) * (\<Sum>i<length ys. ys ! i))
     / olsDenominator (length ys)"

definition olsIntercept :: "real list \<Rightarrow> real" where
  "olsIntercept ys =
     ((\<Sum>i<length ys. ys ! i) - olsSlope ys * (\<Sum>i<length ys. real i)) / real (length ys)"

text \<open>
  The matrices after the row swap of each step, for the elimination that runs through all
  steps without the check of the pivot: the entry \<open>i, i\<close> of the \<open>i\<close>-th of them is the
  pivot of step \<open>i\<close>.
\<close>

fun pivotStages :: "nat \<Rightarrow> nat list \<Rightarrow> matrix \<Rightarrow> (nat \<times> matrix) list" where
  "pivotStages n [] augmented = []"
| "pivotStages n (i # rest) augmented =
     (let swapped = swapRows augmented i (findMaxRow augmented i n)
      in (i, swapped) # pivotStages n rest (eliminate swapped i n))"


text \<open>
  The historical value that the fallback of the smoothing functions is built to use: the
  last value when it is a number, else the value before it when that is a number, else 0.
\<close>

definition lastUsable :: "jsnum list \<Rightarrow> jsnum" where
  "lastUsable values =
     (let n = length values
      in if values ! (n - 1) \<noteq> NaN then values ! (n - 1)
         else if n > 1 \<and> values ! (n - 2) \<noteq> NaN then values ! (n - 2)
         else Fin 0)"

text \<open>The last value of a series that is not \<open>NaN\<close>, if there is one.\<close>

definition lastValid :: "jsnum list \<Rightarrow> jsnum option" where
  "lastValid values =
     (case filter (\<lambda>v. v \<noteq> NaN) (rev values) of [] \<Rightarrow> None | v # _ \<Rightarrow> Some v)"

section \<open>Verified properties\<close>

subsection \<open>Arithmetic on finite numbers\<close>

lemma fin_minus [simp]: "Fin a - Fin b = Fin (a - b)"
  by (simp add: minus_jsnum_def)

lemma isFinite_iff: "isFinite x \<longleftrightarrow> (\<exists>r. x = Fin r)"
  by (cases x) simp_all


lemma elemAt_nat [simp]: "elemAt xs (int i) = (if i < length xs then xs ! i else NaN)"
  by (simp add: elemAt_def)

subsection \<open>Differencing and its inverse\<close>






subsection \<open>Validation\<close>

text \<open>
  C8. \<open>arima\<close> fails with the error of the 20-point minimum for every series of fewer
  than 20 points, and with the error of the order for a series of at least 20 points that
  has fewer than \<open>p + d + q + 5\<close> points, whatever the values of the series: no differencing
  or forecasting has taken place. Through the orchestrator, the first error arrives wrapped
  in the model's failure.
\<close>

theorem arima_insufficient_data:
  "(length data < 20 \<longrightarrow> arima data periods params = Inl ArimaMin20)
   \<and> (20 \<le> length data
        \<and> length data < natOr (param_p params) 2 + natOr (param_d params) 1 + natOr (param_q params) 1 + 5
      \<longrightarrow> arima data periods params =
            Inl (ArimaOrderTooFew (natOr (param_p params) 2) (natOr (param_d params) 1)
                   (natOr (param_q params) 1)
                   (natOr (param_p params) 2 + natOr (param_d params) 1 + natOr (param_q params) 1 + 5)))
   \<and> (2 \<le> length data \<and> length data < 20 \<and> 0 < periods
      \<longrightarrow> generatePrediction data periods ''arima'' interval fmt mp =
            Inl (ModelFailed ''arima'' ArimaMin20))"
  by (simp add: arima_def generatePrediction_def dispatchModel_def Let_def)

theorem arima_insufficient_data_witness:
  "arima (replicate 15 \<lparr>time = 2020, val = Fin 1\<rparr>) 3 \<lparr>param_p = None, param_d = None, param_q = None\<rparr>
     = Inl ArimaMin20
   \<and> arima (replicate 20 \<lparr>time = 2020, val = Fin 1\<rparr>) 3
        \<lparr>param_p = Some 10, param_d = Some 5, param_q = Some 1\<rparr>
     = Inl (ArimaOrderTooFew 10 5 1 21)
   \<and> generatePrediction (replicate 15 \<lparr>time = 2020, val = Fin 1\<rparr>) 3 ''arima'' 1 ''year'' noParams
     = Inl (ModelFailed ''arima'' ArimaMin20)"
  using arima_insufficient_data [of "replicate 15 \<lparr>time = 2020, val = Fin 1\<rparr>" 3
          "\<lparr>param_p = None, param_d = None, param_q = None\<rparr>" 1 "''year''" noParams]
        arima_insufficient_data [of "replicate 20 \<lparr>time = 2020, val = Fin 1\<rparr>" 3
          "\<lparr>param_p = Some 10, param_d = Some 5, param_q = Some 1\<rparr>" 1 "''year''" noParams]
  by (simp add: natOr_def)

text \<open>
  C9, as the claim states it, fails: the orchestrator checks the length of the series
  before it checks \<open>periods\<close>, so a series of one point and \<open>periods = 0\<close> give the error
  of the short history.
\<close>

theorem invalid_periods_counterexample:
  "(0::int) \<le> 0
   \<and> generatePrediction [\<lparr>time = 2020, val = Fin 1\<rparr>] 0 ''linear'' 1 ''year'' noParams
       = Inl HistoryTooShort
   \<and> generatePrediction [\<lparr>time = 2020, val = Fin 1\<rparr>] 0 ''linear'' 1 ''year'' noParams
       \<noteq> Inl InvalidPeriods"
  by (simp add: generatePrediction_def)

text \<open>
  C9, amended. For \<open>periods \<le> 0\<close>, the orchestrator fails with the error of the invalid
  periods for every series of at least two points, whatever its content, the model and
  the parameters; for a shorter series it fails with the error of the short history. The
  controller, once file name, area, indicator and time range are given, rejects the
  request for \<open>period \<le> 0\<close> whatever the data file holds: it has not read it.
\<close>

theorem invalid_periods_rejected:
  assumes "periods \<le> 0"
  shows "(2 \<le> length hist \<longrightarrow>
            generatePrediction hist periods modelName interval fmt params = Inl InvalidPeriods)
       \<and> (length hist < 2 \<longrightarrow>
            generatePrediction hist periods modelName interval fmt params = Inl HistoryTooShort)
       \<and> (requiredFieldsPresent req \<and> req_period req = Some periods \<longrightarrow>
            predict loadDataFile req = BadRequest PeriodNotPositive)"
  using assms
  by (simp add: generatePrediction_def predict_def requiredFieldsPresent_def Let_def)

theorem invalid_periods_rejected_witness:
  "generatePrediction [\<lparr>time = 2020, val = Fin 1\<rparr>, \<lparr>time = 2021, val = Fin 2\<rparr>] (- 1)
       ''linear'' 1 ''year'' noParams = Inl InvalidPeriods
   \<and> generatePrediction [] (- 1) ''linear'' 1 ''year'' noParams = Inl HistoryTooShort
   \<and> predict (\<lambda>f. None)
        \<lparr>req_filename = Some ''a.json'', req_area = Some ''x'', req_indicator = Some ''gdp'',
          req_startTime = Some 2019, req_endTime = Some 2024, req_period = Some (- 1),
          req_model = None, req_modelParams = None\<rparr> = BadRequest PeriodNotPositive"
  using invalid_periods_rejected [of "- 1"
          "[\<lparr>time = 2020, val = Fin 1\<rparr>, \<lparr>time = 2021, val = Fin 2\<rparr>]" "''linear''" 1 "''year''" noParams
          "\<lparr>req_filename = Some ''a.json'', req_area = Some ''x'', req_indicator = Some ''gdp'',
          req_startTime = Some 2019, req_endTime = Some 2024, req_period = Some (- 1),
          req_model = None, req_modelParams = None\<rparr>" "\<lambda>f. None"]
        invalid_periods_rejected [of "- 1" "[]" "''linear''" 1 "''year''" noParams
          "\<lparr>req_filename = Some ''a.json'', req_area = Some ''x'', req_indicator = Some ''gdp'',
          req_startTime = Some 2019, req_endTime = Some 2024, req_period = Some (- 1),
          req_model = None, req_modelParams = None\<rparr>" "\<lambda>f. None"]
  by (simp add: requiredFieldsPresent_def strOr_def)

subsection \<open>ARIMA orders\<close>

lemma natOr_pos: "0 < k \<Longrightarrow> 0 < natOr x k"
  by (simp add: natOr_def split: option.splits)

lemma natOr_idem: "0 < k \<Longrightarrow> natOr (Some (natOr x k)) k = natOr x k"
  by (simp add: natOr_def split: option.splits)

lemma arima_orders:
  "natOr (param_p a) 2 = natOr (param_p b) 2 \<Longrightarrow> natOr (param_d a) 1 = natOr (param_d b) 1
   \<Longrightarrow> natOr (param_q a) 1 = natOr (param_q b) 1 \<Longrightarrow> arima data periods a = arima data periods b"
  by (simp add: arima_def)

lemma arima_auto_orders:
  "arima hist periods (autoArima hist)
     = arima hist periods \<lparr>param_p = Some 2, param_d = Some 1, param_q = Some 1\<rparr>"
proof (cases "length hist < 20")
  case True
  then show ?thesis by (simp add: arima_def)
next
  case False
  then have "min 2 (length hist div 10) = 2" "min 1 (length hist div 15) = 1"
    by simp_all
  then show ?thesis
    by (intro arima_orders) (simp_all add: autoArima_def Let_def natOr_def)
qed

lemma dispatch_arima_orders:
  "dispatchModel hist periods ''arima'' mp
     = arima hist periods \<lparr>param_p = Some (natOr (mp_p mp) 2), param_d = Some (natOr (mp_d mp) 1),
                            param_q = Some (natOr (mp_q mp) 1)\<rparr>"
proof (cases "natOr (mp_p mp) 0 \<noteq> 0 \<or> natOr (mp_d mp) 0 \<noteq> 0 \<or> natOr (mp_q mp) 0 \<noteq> 0")
  case True
  then show ?thesis by (simp add: dispatchModel_def)
next
  case False
  then have "natOr (mp_p mp) 2 = 2" "natOr (mp_d mp) 1 = 1" "natOr (mp_q mp) 1 = 1"
    by (auto simp: natOr_def split: option.splits if_splits)
  with False show ?thesis by (simp add: dispatchModel_def arima_auto_orders)
qed

text \<open>
  C10. In \<open>arima\<close> and in the orchestrator's ARIMA branch, an order of 0 and a missing
  order are replaced alike: every call gives the result of the call with the explicit
  orders \<open>p || 2\<close>, \<open>d || 1\<close>, \<open>q || 1\<close>, which are all positive. This includes the
  branch of the orchestrator that estimates the orders when all three are 0 or missing:
  \<open>arima\<close> replaces an estimated \<open>d = 0\<close> by 1 as well. So neither an AR order of zero
  nor a run without differencing can be requested.
\<close>

theorem arima_zero_order_replaced:
  "arima data periods params
     = arima data periods \<lparr>param_p = Some (natOr (param_p params) 2),
                             param_d = Some (natOr (param_d params) 1),
                             param_q = Some (natOr (param_q params) 1)\<rparr>
   \<and> generatePrediction data periods ''arima'' interval fmt mp
     = generatePrediction data periods ''arima'' interval fmt
         (mp\<lparr>mp_p := Some (natOr (mp_p mp) 2), mp_d := Some (natOr (mp_d mp) 1),
             mp_q := Some (natOr (mp_q mp) 1)\<rparr>)
   \<and> natOr (Some 0) 2 = 2 \<and> natOr (Some 0) 1 = 1 \<and> natOr None 2 = 2 \<and> natOr None 1 = 1
   \<and> 0 < natOr (param_p params) 2 \<and> 0 < natOr (param_d params) 1 \<and> 0 < natOr (param_q params) 1
   \<and> 0 < natOr (mp_p mp) 2 \<and> 0 < natOr (mp_d mp) 1 \<and> 0 < natOr (mp_q mp) 1"
proof -
  have a: "arima data periods params
     = arima data periods \<lparr>param_p = Some (natOr (param_p params) 2),
                             param_d = Some (natOr (param_d params) 1),
                             param_q = Some (natOr (param_q params) 1)\<rparr>"
    by (rule arima_orders) (simp_all add: natOr_idem)
  have "dispatchModel data periods ''arima'' mp
     = dispatchModel data periods ''arima''
         (mp\<lparr>mp_p := Some (natOr (mp_p mp) 2), mp_d := Some (natOr (mp_d mp) 1),
             mp_q := Some (natOr (mp_q mp) 1)\<rparr>)"
    unfolding dispatch_arima_orders by (simp add: natOr_idem)
  then have b: "generatePrediction data periods ''arima'' interval fmt mp
     = generatePrediction data periods ''arima'' interval fmt
         (mp\<lparr>mp_p := Some (natOr (mp_p mp) 2), mp_d := Some (natOr (mp_d mp) 1),
             mp_q := Some (natOr (mp_q mp) 1)\<rparr>)"
    by (simp add: generatePrediction_def)
  show ?thesis using a b by (simp add: natOr_pos) (simp add: natOr_def)
qed

theorem arima_zero_order_replaced_witness:
  "arima (replicate 15 \<lparr>time = 2020, val = Fin 1\<rparr>) 3
       \<lparr>param_p = Some 0, param_d = Some 0, param_q = Some 0\<rparr>
     = arima (replicate 15 \<lparr>time = 2020, val = Fin 1\<rparr>) 3
         \<lparr>param_p = Some 2, param_d = Some 1, param_q = Some 1\<rparr>
   \<and> generatePrediction (replicate 25 \<lparr>time = 2020, val = Fin 1\<rparr>) 3 ''arima'' 1 ''year''
       (noParams\<lparr>mp_p := Some 0, mp_d := Some 3\<rparr>)
     = generatePrediction (replicate 25 \<lparr>time = 2020, val = Fin 1\<rparr>) 3 ''arima'' 1 ''year''
         (noParams\<lparr>mp_p := Some 2, mp_d := Some 3, mp_q := Some 1\<rparr>)"
  using arima_zero_order_replaced [of "replicate 15 \<lparr>time = 2020, val = Fin 1\<rparr>" 3
          "\<lparr>param_p = Some 0, param_d = Some 0, param_q = Some 0\<rparr>" 1 "''year''" noParams]
        arima_zero_order_replaced [of "replicate 25 \<lparr>time = 2020, val = Fin 1\<rparr>" 3
          "\<lparr>param_p = Some 0, param_d = Some 0, param_q = Some 0\<rparr>" 1 "''year''"
          "noParams\<lparr>mp_p := Some 0, mp_d := Some 3\<rparr>"]
  by (simp add: natOr_def noParams_def)

subsection \<open>The result of the orchestrator\<close>

lemma result_vals:
  "map (val \<circ> (\<lambda>(index, v). \<lparr>time = ts ! index, val = v, isPrediction = True\<rparr>)) (enumerate k vs) = vs"
  by (induction vs arbitrary: k) simp_all

lemma result_times:
  "length vs = length ts \<Longrightarrow>
   map (time \<circ> (\<lambda>(index, v). \<lparr>time = ts ! index, val = v, isPrediction = True\<rparr>)) (enumerate 0 vs) = ts"
  by (simp add: list_eq_iff_nth_eq nth_enumerate_eq)

lemma generatePrediction_success:
  assumes "2 \<le> length hist" "0 < periods" "dispatchModel hist periods modelName params = Inr preds"
  shows "\<exists>r. generatePrediction hist periods modelName interval fmt params = Inr r
            \<and> map val (predictions r) = map (\<lambda>v. if isNaN v then Fin 0 else v) preds
            \<and> length (predictions r) = length preds
            \<and> (length preds = nat periods \<longrightarrow>
                 map time (predictions r)
                   = map (nextTime (time (hist ! (length hist - 1))) fmt interval) [0..<nat periods])"
  using assms
  by (simp add: generatePrediction_def Let_def result_vals result_times)

lemma generatePrediction_Inr:
  assumes "generatePrediction hist periods modelName interval fmt params = Inr r"
  shows "2 \<le> length hist \<and> 0 < periods \<and> (\<exists>preds. dispatchModel hist periods modelName params = Inr preds)"
  using assms
  by (auto simp: generatePrediction_def split: if_splits sum.splits)

subsection \<open>Linear regression\<close>

lemma linearSums_snoc:
  "linearSums (xs @ [p]) =
     (case linearSums xs of (sumX, sumY, sumXY, sumX2) \<Rightarrow>
        (sumX + Fin (real (length xs)), sumY + val p,
         sumXY + Fin (real (length xs)) * val p,
         sumX2 + Fin (real (length xs)) * Fin (real (length xs))))"
  by (simp add: linearSums_def enumerate_append_eq Let_def split: prod.splits)

lemma linearSums_finite:
  assumes "\<forall>p\<in>set data. isFinite (val p)"
  shows "linearSums data =
     (Fin (\<Sum>i<length data. real i),
      Fin (\<Sum>i<length data. toReal (val (data ! i))),
      Fin (\<Sum>i<length data. real i * toReal (val (data ! i))),
      Fin (\<Sum>i<length data. (real i)\<^sup>2))"
  using assms
proof (induction data rule: rev_induct)
  case Nil
  then show ?case by (simp add: linearSums_def)
next
  case (snoc p xs)
  then obtain r where r: "val p = Fin r" by (auto simp: isFinite_iff)
  have ih: "linearSums xs =
     (Fin (\<Sum>i<length xs. real i),
      Fin (\<Sum>i<length xs. toReal (val (xs ! i))),
      Fin (\<Sum>i<length xs. real i * toReal (val (xs ! i))),
      Fin (\<Sum>i<length xs. (real i)\<^sup>2))"
    using snoc by simp
  have c1: "(\<Sum>i<length xs. toReal (val ((xs @ [p]) ! i))) = (\<Sum>i<length xs. toReal (val (xs ! i)))"
    by (rule sum.cong) (simp_all add: nth_append)
  have c2: "(\<Sum>i<length xs. real i * toReal (val ((xs @ [p]) ! i)))
      = (\<Sum>i<length xs. real i * toReal (val (xs ! i)))"
    by (rule sum.cong) (simp_all add: nth_append)
  show ?case
    unfolding linearSums_snoc ih
    by (simp add: r c1 c2 power2_eq_square)
qed

lemma sum_index: "(\<Sum>i<n. real i) = real n * (real n - 1) / 2"
  by (induction n) (simp_all add: field_simps)

lemma sum_index_sq: "(\<Sum>i<n. (real i)\<^sup>2) = (real n - 1) * real n * (2 * real n - 1) / 6"
  by (induction n) (simp_all add: field_simps power2_eq_square)

lemma olsDenominator_closed: "olsDenominator n = (real n)\<^sup>2 * ((real n)\<^sup>2 - 1) / 12"
  unfolding olsDenominator_def sum_index sum_index_sq
  by (simp add: field_simps power2_eq_square)

lemma olsDenominator_pos: "2 \<le> n \<Longrightarrow> 0 < olsDenominator n"
proof -
  assume "2 \<le> n"
  then have "1 < real n" by simp
  then have "1 < (real n)\<^sup>2" by (simp add: power2_eq_square less_1_mult)
  moreover have "0 < (real n)\<^sup>2" using \<open>2 \<le> n\<close> by simp
  ultimately have "0 < (real n)\<^sup>2 * ((real n)\<^sup>2 - 1)" by (intro mult_pos_pos) simp_all
  then show ?thesis unfolding olsDenominator_closed by simp
qed

lemma linearRegression_finite:
  assumes "\<forall>p\<in>set data. isFinite (val p)" and "2 \<le> length data"
  shows "linearRegression data =
     (if olsDenominator (length data) = 0 then Inl LinearDegenerate
      else Inr (Fin (olsSlope (map (\<lambda>p. toReal (val p)) data)),
                Fin (olsIntercept (map (\<lambda>p. toReal (val p)) data))))"
proof -
  have n0: "real (length data) \<noteq> 0" using assms(2) by auto
  have s: "(\<Sum>i<length data. toReal (val (data ! i)))
      = (\<Sum>i<length data. map (\<lambda>p. toReal (val p)) data ! i)"
    "(\<Sum>i<length data. real i * toReal (val (data ! i)))
      = (\<Sum>i<length data. real i * map (\<lambda>p. toReal (val p)) data ! i)"
    by (rule sum.cong; simp)+
  show ?thesis
    using assms(2) n0
    unfolding linearRegression_def linearSums_finite [OF assms(1)] s
    by (simp add: olsDenominator_def olsSlope_def olsIntercept_def Let_def power2_eq_square)
qed

lemma linear_dispatch:
  assumes "\<forall>p\<in>set data. isFinite (val p)" and "2 \<le> length data"
  shows "dispatchModel data periods ''linear'' params =
           Inr (map (\<lambda>i. Fin (olsSlope (map (\<lambda>p. toReal (val p)) data) * real (length data + i)
                               + olsIntercept (map (\<lambda>p. toReal (val p)) data))) [0..<nat periods])"
  using olsDenominator_pos [OF assms(2)]
  by (simp add: dispatchModel_def linearRegression_finite [OF assms])

text \<open>
  C3. For a series of finite values, \<open>linearRegression\<close> fails for fewer than two
  points; for at least two points it fails when the denominator \<open>n\<Sigma>x\<^sup>2 - (\<Sigma>x)\<^sup>2\<close> of the
  index sequence is zero, and otherwise returns the slope and the intercept of the closed
  form above. The linear model of the orchestrator then predicts
  \<open>slope \<cdot> (n + i) + intercept\<close> for the \<open>i\<close>-th future period; for the values 1, 2, 3
  and two periods, the predicted values are 4 and 5.
\<close>

theorem linear_model_fit:
  assumes "\<forall>p\<in>set data. isFinite (val p)"
  shows "(length data < 2 \<longrightarrow> linearRegression data = Inl LinearTooFew)
       \<and> (2 \<le> length data \<longrightarrow>
            linearRegression data =
              (if olsDenominator (length data) = 0 then Inl LinearDegenerate
               else Inr (Fin (olsSlope (map (\<lambda>p. toReal (val p)) data)),
                         Fin (olsIntercept (map (\<lambda>p. toReal (val p)) data)))))
       \<and> (2 \<le> length data \<and> 0 < periods \<longrightarrow>
            (\<exists>r. generatePrediction data periods ''linear'' interval fmt params = Inr r
                 \<and> map val (predictions r) =
                     map (\<lambda>i. Fin (olsSlope (map (\<lambda>p. toReal (val p)) data) * real (length data + i)
                                    + olsIntercept (map (\<lambda>p. toReal (val p)) data)))
                       [0..<nat periods]))
       \<and> (\<exists>r. generatePrediction
                 [\<lparr>time = t0, val = Fin 1\<rparr>, \<lparr>time = t1, val = Fin 2\<rparr>, \<lparr>time = t2, val = Fin 3\<rparr>]
                 2 ''linear'' interval fmt params = Inr r
               \<and> map val (predictions r) = [Fin 4, Fin 5])"
proof -
  have a: "length data < 2 \<longrightarrow> linearRegression data = Inl LinearTooFew"
    by (simp add: linearRegression_def)
  have b: "2 \<le> length data \<longrightarrow>
            linearRegression data =
              (if olsDenominator (length data) = 0 then Inl LinearDegenerate
               else Inr (Fin (olsSlope (map (\<lambda>p. toReal (val p)) data)),
                         Fin (olsIntercept (map (\<lambda>p. toReal (val p)) data))))"
    using linearRegression_finite [OF assms] by simp
  have c: "\<exists>r. generatePrediction data periods ''linear'' interval fmt params = Inr r
                 \<and> map val (predictions r) =
                     map (\<lambda>i. Fin (olsSlope (map (\<lambda>p. toReal (val p)) data) * real (length data + i)
                                    + olsIntercept (map (\<lambda>p. toReal (val p)) data)))
                       [0..<nat periods]"
    if h: "2 \<le> length data" "0 < periods"
  proof -
    from generatePrediction_success [OF h linear_dispatch [OF assms h(1)]]
    obtain r where "generatePrediction data periods ''linear'' interval fmt params = Inr r"
      and "map val (predictions r) = map (\<lambda>v. if isNaN v then Fin 0 else v)
             (map (\<lambda>i. Fin (olsSlope (map (\<lambda>p. toReal (val p)) data) * real (length data + i)
                               + olsIntercept (map (\<lambda>p. toReal (val p)) data))) [0..<nat periods])"
      by blast
    then show ?thesis by (auto simp: isNaN_def comp_def)
  qed
  let ?d = "[\<lparr>time = t0, val = Fin 1\<rparr>, \<lparr>time = t1, val = Fin 2\<rparr>, \<lparr>time = t2, val = Fin 3\<rparr>]"
  have "dispatchModel ?d 2 ''linear'' params = Inr [Fin 4, Fin 5]"
    by (simp add: dispatchModel_def linearRegression_def linearSums_def enumerate_eq_zip upt_rec numeral_3_eq_3 numeral_2_eq_2 Let_def)
  from generatePrediction_success [OF _ _ this, of interval fmt]
  have d: "\<exists>r. generatePrediction ?d 2 ''linear'' interval fmt params = Inr r
               \<and> map val (predictions r) = [Fin 4, Fin 5]"
    by (auto simp: isNaN_def)
  show ?thesis using a b c d by blast
qed

theorem linear_model_fit_witness:
  "linearRegression [\<lparr>time = 2020, val = Fin 1\<rparr>] = Inl LinearTooFew
   \<and> linearRegression [\<lparr>time = 2020, val = Fin 1\<rparr>, \<lparr>time = 2021, val = Fin 3\<rparr>]
       = Inr (Fin 2, Fin 1)
   \<and> (\<exists>r. generatePrediction [\<lparr>time = 2020, val = Fin 1\<rparr>, \<lparr>time = 2021, val = Fin 3\<rparr>]
             2 ''linear'' 1 ''year'' noParams = Inr r
           \<and> map val (predictions r) = [Fin 5, Fin 7])"
  using linear_model_fit [of "[\<lparr>time = 2020, val = Fin 1\<rparr>]" 2 1 "''year''" noParams]
        linear_model_fit [of "[\<lparr>time = 2020, val = Fin 1\<rparr>, \<lparr>time = 2021, val = Fin 3\<rparr>]"
           2 1 "''year''" noParams]
  by (simp add: olsDenominator_def olsSlope_def olsIntercept_def lessThan_Suc numeral_2_eq_2)

subsection \<open>Moving averages of a constant series\<close>






















subsection \<open>Gaussian elimination\<close>

lemma jless_trans: "a < b \<Longrightarrow> b < c \<Longrightarrow> a < (c::jsnum)"
  by (cases a; cases b; cases c) auto

lemma jless_irrefl: "\<not> a < (a::jsnum)"
  by (cases a) auto

lemma scan_max:
  fixes f :: "nat \<Rightarrow> jsnum"
  assumes "\<forall>k\<in>S. \<not> f m0 < f k"
  shows "(\<forall>k\<in>S \<union> set ks. \<not> f (foldl (\<lambda>maxRow k. if f maxRow < f k then k else maxRow) m0 ks) < f k)
       \<and> foldl (\<lambda>maxRow k. if f maxRow < f k then k else maxRow) m0 ks \<in> insert m0 (set ks)"
  using assms
proof (induction ks arbitrary: m0 S)
  case Nil
  then show ?case by simp
next
  case (Cons k ks)
  let ?m = "if f m0 < f k then k else m0"
  have "\<forall>j\<in>insert k S. \<not> f ?m < f j"
    using Cons.prems by (auto dest: jless_trans simp: jless_irrefl)
  from Cons.IH [OF this] show ?case by auto
qed

lemma findMaxRow_max:
  assumes "i < n"
  shows "(\<forall>k. i \<le> k \<and> k < n \<longrightarrow> \<not> \<bar>aug ! findMaxRow aug i n ! i\<bar> < \<bar>aug ! k ! i\<bar>)
       \<and> i \<le> findMaxRow aug i n \<and> findMaxRow aug i n < n"
proof -
  have "\<forall>k\<in>{i}. \<not> \<bar>aug ! i ! i\<bar> < \<bar>aug ! k ! i\<bar>" by (simp add: jless_irrefl)
  from scan_max [of "{i}" "\<lambda>k. \<bar>aug ! k ! i\<bar>" i "[i + 1..<n]", OF this]
  show ?thesis using assms unfolding findMaxRow_def by (auto simp: le_eq_less_or_eq)
qed

lemma length_swapRows [simp]: "length (swapRows aug i m) = length aug"
  by (simp add: swapRows_def)

lemma length_eliminate [simp]: "length (eliminate aug i n) = length aug"
proof -
  have "length (foldl (\<lambda>a k. a[k := eliminateRow (a ! i) i n (a ! k)]) aug ks) = length aug" for ks
    by (induction ks arbitrary: aug) simp_all
  then show ?thesis by (simp add: eliminate_def)
qed

lemma swapRows_nth:
  assumes "i < length aug" "m < length aug" "k < length aug"
  shows "swapRows aug i m ! k = (if k = m then aug ! i else if k = i then aug ! m else aug ! k)"
  using assms by (simp add: swapRows_def nth_list_update)

lemma pivot_is_max:
  assumes "i < n" "length aug = n"
  shows "\<forall>k. i \<le> k \<and> k < n \<longrightarrow>
           \<not> \<bar>swapRows aug i (findMaxRow aug i n) ! i ! i\<bar> < \<bar>swapRows aug i (findMaxRow aug i n) ! k ! i\<bar>"
proof (intro allI impI)
  fix k assume k: "i \<le> k \<and> k < n"
  let ?m = "findMaxRow aug i n"
  have m: "\<forall>k. i \<le> k \<and> k < n \<longrightarrow> \<not> \<bar>aug ! ?m ! i\<bar> < \<bar>aug ! k ! i\<bar>" "i \<le> ?m" "?m < n"
    using findMaxRow_max [OF assms(1), of aug] by auto
  have p: "swapRows aug i ?m ! i = aug ! ?m"
    using assms m by (simp add: swapRows_nth)
  have "swapRows aug i ?m ! k = aug ! i \<or> swapRows aug i ?m ! k = aug ! ?m \<or> swapRows aug i ?m ! k = aug ! k"
    using assms m k by (simp add: swapRows_nth)
  then show "\<not> \<bar>swapRows aug i ?m ! i ! i\<bar> < \<bar>swapRows aug i ?m ! k ! i\<bar>"
    unfolding p using m(1) k assms(1) by (auto simp: jless_irrefl)
qed

lemma stages_pivot_max:
  assumes "length aug = n" "\<forall>i\<in>set idx. i < n"
  shows "\<forall>(i, m)\<in>set (pivotStages n idx aug). \<forall>k. i \<le> k \<and> k < n \<longrightarrow> \<not> \<bar>m ! i ! i\<bar> < \<bar>m ! k ! i\<bar>"
  using assms
proof (induction idx arbitrary: aug)
  case Nil
  then show ?case by simp
next
  case (Cons i rest)
  have i: "i < n" using Cons.prems by simp
  have "length (eliminate (swapRows aug i (findMaxRow aug i n)) i n) = n"
    using Cons.prems by simp
  from Cons.IH [OF this] Cons.prems pivot_is_max [OF i Cons.prems(1)]
  show ?case by (simp add: Let_def)
qed

lemma forward_singular_iff:
  "forwardElimination n idx aug = Inl e \<longleftrightarrow>
     e = SingularMatrix \<and> (\<exists>(i, m)\<in>set (pivotStages n idx aug). \<bar>m ! i ! i\<bar> < pivotTolerance)"
  by (induction idx arbitrary: aug) (auto simp: Let_def)


text \<open>
  C4. In every run of \<open>solveLinearSystem\<close>, the pivot of each step is, after the swap, an
  entry of its column that no row from the pivot row down exceeds in absolute value. The
  solver fails, with the error of the singular matrix and with no other, exactly when the
  pivot of some step is below \<open>1e-10\<close> in absolute value, and it returns a solution
  vector exactly when no pivot is.
\<close>

theorem gaussian_elimination_pivoting:
  "(\<forall>(i, m)\<in>set (pivotStages (length A) [0..<length A] (augment A b)).
       \<forall>k. i \<le> k \<and> k < length A \<longrightarrow> \<not> \<bar>m ! i ! i\<bar> < \<bar>m ! k ! i\<bar>)
   \<and> (solveLinearSystem A b = Inl SingularMatrix \<longleftrightarrow>
        (\<exists>(i, m)\<in>set (pivotStages (length A) [0..<length A] (augment A b)).
            \<bar>m ! i ! i\<bar> < pivotTolerance))
   \<and> ((\<exists>x. solveLinearSystem A b = Inr x) \<longleftrightarrow>
        \<not> (\<exists>(i, m)\<in>set (pivotStages (length A) [0..<length A] (augment A b)).
            \<bar>m ! i ! i\<bar> < pivotTolerance))
   \<and> (\<forall>e. solveLinearSystem A b = Inl e \<longrightarrow> e = SingularMatrix)"
proof -
  let ?n = "length A"
  let ?small = "\<exists>(i, m)\<in>set (pivotStages ?n [0..<?n] (augment A b)). \<bar>m ! i ! i\<bar> < pivotTolerance"
  have len: "length (augment A b) = ?n" by (simp add: augment_def)
  have a: "\<forall>(i, m)\<in>set (pivotStages ?n [0..<?n] (augment A b)).
       \<forall>k. i \<le> k \<and> k < ?n \<longrightarrow> \<not> \<bar>m ! i ! i\<bar> < \<bar>m ! k ! i\<bar>"
    by (rule stages_pivot_max [OF len]) simp
  have f: "forwardElimination ?n [0..<?n] (augment A b) = Inl e \<longleftrightarrow> e = SingularMatrix \<and> ?small" for e
    by (rule forward_singular_iff)
  have s: "solveLinearSystem A b = Inl e \<longleftrightarrow> forwardElimination ?n [0..<?n] (augment A b) = Inl e" for e
    by (simp add: solveLinearSystem_def Let_def split: sum.splits)
  have b: "solveLinearSystem A b = Inl SingularMatrix \<longleftrightarrow> ?small"
    unfolding s f by simp
  have d: "\<forall>e. solveLinearSystem A b = Inl e \<longrightarrow> e = SingularMatrix"
    unfolding s f by simp
  have c: "(\<exists>x. solveLinearSystem A b = Inr x) \<longleftrightarrow> \<not> ?small"
  proof (cases "solveLinearSystem A b")
    case (Inl e)
    with d have "solveLinearSystem A b = Inl SingularMatrix" by simp
    with b Inl show ?thesis by simp
  next
    case (Inr x)
    with b show ?thesis by auto
  qed
  show ?thesis using a b c d by blast
qed

lemma stages_example:
  "pivotStages 2 [0..<2] (augment [[Fin 1, Fin 2], [Fin 2, Fin 4]] [Fin 1, Fin 2])
     = [(0, [[Fin 2, Fin 4, Fin 2], [Fin 1, Fin 2, Fin 1]]),
        (1, [[Fin 2, Fin 4, Fin 2], [Fin 0, Fin 0, Fin 0]])]"
  by (simp add: augment_def findMaxRow_def swapRows_def eliminate_def eliminateRow_def
        upt_rec numeral_2_eq_2 Let_def)


lemma stages_example_regular:
  "pivotStages 2 [0..<2] (augment [[Fin 0, Fin 1], [Fin 1, Fin 0]] [Fin 2, Fin 3])
     = [(0, [[Fin 1, Fin 0, Fin 3], [Fin 0, Fin 1, Fin 2]]),
        (1, [[Fin 1, Fin 0, Fin 3], [Fin 0, Fin 1, Fin 2]])]"
  by (simp add: augment_def findMaxRow_def swapRows_def eliminate_def eliminateRow_def
        upt_rec numeral_2_eq_2 Let_def)

theorem gaussian_elimination_pivoting_witness:
  "solveLinearSystem [[Fin 1, Fin 2], [Fin 2, Fin 4]] [Fin 1, Fin 2] = Inl SingularMatrix
   \<and> (\<exists>x. solveLinearSystem [[Fin 0, Fin 1], [Fin 1, Fin 0]] [Fin 2, Fin 3] = Inr x)"
proof -
  have l: "length [[Fin 1, Fin 2], [Fin 2, Fin 4]] = 2" "length [[Fin 0, Fin 1], [Fin 1, Fin 0]] = 2"
    by simp_all
  note singular = gaussian_elimination_pivoting
      [of "[[Fin 1, Fin 2], [Fin 2, Fin 4]]" "[Fin 1, Fin 2]", unfolded l stages_example]
  note regular = gaussian_elimination_pivoting
      [of "[[Fin 0, Fin 1], [Fin 1, Fin 0]]" "[Fin 2, Fin 3]", unfolded l stages_example_regular]
  from singular have "solveLinearSystem [[Fin 1, Fin 2], [Fin 2, Fin 4]] [Fin 1, Fin 2] = Inl SingularMatrix"
    by (simp add: pivotTolerance_def)
  moreover from regular have "\<exists>x. solveLinearSystem [[Fin 0, Fin 1], [Fin 1, Fin 0]] [Fin 2, Fin 3] = Inr x"
    by (simp add: pivotTolerance_def)
  ultimately show ?thesis by simp
qed

lemma solve_example_swap:
  "solveLinearSystem [[Fin 0, Fin 1], [Fin 1, Fin 0]] [Fin 2, Fin 3] = Inr [Fin 3, Fin 2]"
  by (simp add: solveLinearSystem_def augment_def findMaxRow_def swapRows_def eliminate_def eliminateRow_def
        upt_rec numeral_2_eq_2 Let_def pivotTolerance_def backStep_def)

lemma solve_example:
  "solveLinearSystem [[Fin 2, Fin 1], [Fin 1, Fin 3]] [Fin 5, Fin 10] = Inr [Fin 1, Fin 3]"
  by (simp add: solveLinearSystem_def augment_def findMaxRow_def swapRows_def eliminate_def eliminateRow_def
        upt_rec numeral_2_eq_2 Let_def pivotTolerance_def backStep_def)

subsection \<open>The detected interval and the number of predictions\<close>



lemma length_fallback [simp]: "length (fallbackPredictions values periods) = nat periods"
  by (simp add: fallbackPredictions_def Let_def)





lemma length_inverseDifference [simp]: "length (inverseDifference start ds k) = length ds"
proof -
  have "length (foldl (\<lambda>result dv. result @ [elemAt result (int (length result) - int k) + dv]) start ds)
          = length start + length ds" for start
    by (induction ds arbitrary: start) simp_all
  then show ?thesis by (simp add: inverseDifference_def)
qed

lemma length_arForecast [simp]: "length (arForecast data phi periods) = nat periods"
proof -
  have "length (fst (foldl (\<lambda>(predictions, history) i.
                    let forecast =
                          foldl (\<lambda>f j. f + phi ! j * elemAt history (int (length history) - int (length phi) + int j))
                            (Fin 0) [0..<length phi]
                    in (predictions @ [forecast], history @ [forecast])) (ps, h) idx))
          = length ps + length idx" for ps h and idx :: "nat list"
    by (induction idx arbitrary: ps h) (simp_all add: Let_def)
  from this [of "[]" data "[0..<nat periods]"] show ?thesis by (simp add: arForecast_def Let_def)
qed



subsection \<open>The predicted times\<close>























subsection \<open>The order of the series\<close>

lemma filter_same_key:
  assumes "distinct (map f xs)" "k \<in> set xs"
  shows "filter (\<lambda>x. f k = f x) xs = [k]"
  using assms
proof (induction xs)
  case Nil
  then show ?case by simp
next
  case (Cons x xs)
  show ?case
  proof (cases "k = x")
    case True
    have "filter (\<lambda>y. f x = f y) xs = []"
      using Cons.prems(1) by (auto simp: filter_empty_conv)
    with True show ?thesis by simp
  next
    case False
    then have kxs: "k \<in> set xs" using Cons.prems(2) by simp
    have "f k \<noteq> f x" using Cons.prems(1) kxs by (auto simp: image_iff)
    moreover have "filter (\<lambda>y. f k = f y) xs = [k]"
      using Cons.IH kxs Cons.prems(1) by simp
    ultimately show ?thesis by simp
  qed
qed

lemma sort_key_permutation:
  assumes "mset xs = mset ys" "distinct (map f xs)"
  shows "sort_key f xs = sort_key f ys"
proof (rule properties_for_sort_key)
  show "mset (sort_key f ys) = mset xs" using assms(1) by simp
  show "sorted (map f (sort_key f ys))" by simp
  have "mset (map f (sort_key f ys)) = mset (map f xs)" using assms(1) by simp
  then have dy: "distinct (map f (sort_key f ys))"
    using assms(2) by (metis mset_eq_imp_distinct_iff)
  fix k assume k: "k \<in> set (sort_key f ys)"
  then have kx: "k \<in> set xs" using assms(1) by (metis mset_eq_setD set_sort)
  show "filter (\<lambda>x. f k = f x) (sort_key f ys) = filter (\<lambda>x. f k = f x) xs"
    unfolding filter_same_key [OF dy k] filter_same_key [OF assms(2) kx] by (rule refl)
qed


text \<open>
  C1, as the claim states it, fails: the orchestrator does not sort. The same three points
  in ascending and in descending order of time give different predictions, in value and
  in time.
\<close>

theorem caller_order_counterexample:
  "generatePrediction
     [\<lparr>time = 2020, val = Fin 1\<rparr>, \<lparr>time = 2021, val = Fin 2\<rparr>, \<lparr>time = 2022, val = Fin 3\<rparr>]
     2 ''linear'' 1 ''year'' noParams
   = Inr \<lparr>predictions = [\<lparr>time = 2023, val = Fin 4, isPrediction = True\<rparr>,
                          \<lparr>time = 2024, val = Fin 5, isPrediction = True\<rparr>],
          historicalData = [\<lparr>time = 2020, val = Fin 1, isPrediction = False\<rparr>,
                             \<lparr>time = 2021, val = Fin 2, isPrediction = False\<rparr>,
                             \<lparr>time = 2022, val = Fin 3, isPrediction = False\<rparr>],
          statistics = \<lparr>avgValue = Fin 2, lastValue = Fin 3, predictedValue = Some (Fin 5),
                         growthRate = Some (Fin (200 / 3)), truncatedCount = 0\<rparr>,
          timeInterval = 1, timeFormat = ''year'', model = ''linear''\<rparr>
   \<and> generatePrediction
       [\<lparr>time = 2022, val = Fin 3\<rparr>, \<lparr>time = 2021, val = Fin 2\<rparr>, \<lparr>time = 2020, val = Fin 1\<rparr>]
       2 ''linear'' 1 ''year'' noParams
     = Inr \<lparr>predictions = [\<lparr>time = 2021, val = Fin 0, isPrediction = True\<rparr>,
                            \<lparr>time = 2022, val = Fin (- 1), isPrediction = True\<rparr>],
            historicalData = [\<lparr>time = 2022, val = Fin 3, isPrediction = False\<rparr>,
                               \<lparr>time = 2021, val = Fin 2, isPrediction = False\<rparr>,
                               \<lparr>time = 2020, val = Fin 1, isPrediction = False\<rparr>],
            statistics = \<lparr>avgValue = Fin 2, lastValue = Fin 1, predictedValue = Some (Fin (- 1)),
                           growthRate = Some (Fin (- 200)), truncatedCount = 0\<rparr>,
            timeInterval = 1, timeFormat = ''year'', model = ''linear''\<rparr>"
  by (simp add: generatePrediction_def dispatchModel_def linearRegression_def linearSums_def
        enumerate_eq_zip upt_rec numeral_3_eq_3 numeral_2_eq_2 Let_def nextTime_def isNaN_def jsum_def)

lemma getTimeSeriesData_sorted:
  "getTimeSeriesData load file a i s e = Inr tsd \<Longrightarrow> sorted (map time tsd)"
  by (auto simp: getTimeSeriesData_def Let_def comp_def split: option.splits)

lemma historicalData_order:
  "generatePrediction hist periods modelName interval fmt params = Inr r \<Longrightarrow>
     map time (historicalData r) = map time hist \<and> map val (historicalData r) = map val hist"
  by (auto simp: generatePrediction_def Let_def comp_def split: if_splits sum.splits)

text \<open>
  C1, amended. The orchestrator uses the series in the order in which the caller supplies
  it, and echoes it in that order. The ascending order of time comes from the data
  service: \<open>getTimeSeriesData\<close> returns the selected rows sorted by time, so that the
  response of the controller is the same for every order of the rows in the data file,
  when the selected rows have distinct times.
\<close>

theorem order_from_data_service:
  assumes "load1 (strOr (req_filename req) []) = Some rows1"
      and "load2 (strOr (req_filename req) []) = Some rows2"
      and "mset rows1 = mset rows2"
      and "distinct (map repp (filter (selected (req_area req) (req_indicator req)
                                          (req_startTime req) (req_endTime req)) rows1))"
  shows "getTimeSeriesData load1 (strOr (req_filename req) []) (req_area req) (req_indicator req)
            (req_startTime req) (req_endTime req)
         = getTimeSeriesData load2 (strOr (req_filename req) []) (req_area req) (req_indicator req)
            (req_startTime req) (req_endTime req)
       \<and> (\<exists>tsd. getTimeSeriesData load1 (strOr (req_filename req) []) (req_area req) (req_indicator req)
            (req_startTime req) (req_endTime req) = Inr tsd \<and> sorted (map time tsd))
       \<and> predict load1 req = predict load2 req
       \<and> (generatePrediction hist periods modelName interval fmt params = Inr r \<longrightarrow>
            map time (historicalData r) = map time hist \<and> map val (historicalData r) = map val hist)"
proof -
  let ?P = "selected (req_area req) (req_indicator req) (req_startTime req) (req_endTime req)"
  have "mset (filter ?P rows1) = mset (filter ?P rows2)" using assms(3) by simp
  from sort_key_permutation [OF this assms(4)]
  have g: "getTimeSeriesData load1 (strOr (req_filename req) []) (req_area req) (req_indicator req)
            (req_startTime req) (req_endTime req)
         = getTimeSeriesData load2 (strOr (req_filename req) []) (req_area req) (req_indicator req)
            (req_startTime req) (req_endTime req)"
    using assms(1,2) by (simp add: getTimeSeriesData_def)
  obtain tsd where t: "getTimeSeriesData load1 (strOr (req_filename req) []) (req_area req) (req_indicator req)
            (req_startTime req) (req_endTime req) = Inr tsd"
    using assms(1) by (simp add: getTimeSeriesData_def)
  have p: "predict load1 req = predict load2 req"
    unfolding predict_def g by (rule refl)
  have h: "generatePrediction hist periods modelName interval fmt params = Inr r \<longrightarrow>
            map time (historicalData r) = map time hist \<and> map val (historicalData r) = map val hist"
    using historicalData_order by blast
  have s: "\<exists>tsd. getTimeSeriesData load1 (strOr (req_filename req) []) (req_area req) (req_indicator req)
            (req_startTime req) (req_endTime req) = Inr tsd \<and> sorted (map time tsd)"
    using t getTimeSeriesData_sorted [OF t] by (intro exI conjI)
  show ?thesis using g s p h by (intro conjI)
qed

theorem order_from_data_service_witness:
  "predict (\<lambda>f. Some [\<lparr>area = ''x'', data_name = ''gdp'', repp = 2021, data2 = Fin 2\<rparr>,
                        \<lparr>area = ''x'', data_name = ''gdp'', repp = 2020, data2 = Fin 1\<rparr>])
     \<lparr>req_filename = Some ''a.json'', req_area = Some ''x'', req_indicator = Some ''gdp'',
       req_startTime = Some 2019, req_endTime = Some 2024, req_period = Some 2,
       req_model = None, req_modelParams = None\<rparr>
   = predict (\<lambda>f. Some [\<lparr>area = ''x'', data_name = ''gdp'', repp = 2020, data2 = Fin 1\<rparr>,
                          \<lparr>area = ''x'', data_name = ''gdp'', repp = 2021, data2 = Fin 2\<rparr>])
       \<lparr>req_filename = Some ''a.json'', req_area = Some ''x'', req_indicator = Some ''gdp'',
         req_startTime = Some 2019, req_endTime = Some 2024, req_period = Some 2,
         req_model = None, req_modelParams = None\<rparr>"
proof -
  let ?a = "\<lparr>area = ''x'', data_name = ''gdp'', repp = 2021, data2 = Fin 2\<rparr>"
  let ?b = "\<lparr>area = ''x'', data_name = ''gdp'', repp = 2020, data2 = Fin 1\<rparr>"
  let ?req = "\<lparr>req_filename = Some ''a.json'', req_area = Some ''x'', req_indicator = Some ''gdp'',
       req_startTime = Some 2019, req_endTime = Some 2024, req_period = Some 2,
       req_model = None, req_modelParams = None\<rparr>"
  have 1: "(\<lambda>f. Some [?a, ?b]) (strOr (req_filename ?req) []) = Some [?a, ?b]" by simp
  have 2: "(\<lambda>f. Some [?b, ?a]) (strOr (req_filename ?req) []) = Some [?b, ?a]" by simp
  have 3: "mset [?a, ?b] = mset [?b, ?a]" by simp
  have 4: "distinct (map repp (filter (selected (req_area ?req) (req_indicator ?req)
                                          (req_startTime ?req) (req_endTime ?req)) [?a, ?b]))"
    by (simp add: selected_def strOr_def)
  from order_from_data_service [OF 1 2 3 4] show ?thesis by (rule conjunct2 [THEN conjunct2, THEN conjunct1])
qed

subsection \<open>The fallback of exponential smoothing\<close>

lemma fallback_design:
  assumes "values ! (length values - 1) \<noteq> Fin 0"
  shows "fallbackPredictions values periods = replicate (nat periods) (lastUsable values)"
  using assms
  by (auto simp: fallbackPredictions_def lastUsable_def orElse_def truthy_def isNaN_def Let_def
        map_replicate_const)

lemma lastUsable_not_NaN: "lastUsable values \<noteq> NaN"
  by (simp add: lastUsable_def Let_def)

lemma predictions_not_NaN:
  assumes "generatePrediction hist periods modelName interval fmt params = Inr r"
  shows "\<forall>p\<in>set (predictions r). val p \<noteq> NaN"
proof -
  from generatePrediction_Inr [OF assms] obtain preds
    where h: "2 \<le> length hist" "0 < periods"
      and d: "dispatchModel hist periods modelName params = Inr preds" by blast
  from generatePrediction_success [OF h d, of interval fmt] assms
  have "map val (predictions r) = map (\<lambda>v. if isNaN v then Fin 0 else v) preds" by auto
  then have "set (map val (predictions r)) = (\<lambda>v. if isNaN v then Fin 0 else v) ` set preds" by simp
  then have "NaN \<notin> val ` set (predictions r)" by (auto simp: isNaN_def)
  then show ?thesis by (metis image_eqI)
qed

text \<open>
  C5, amended. When single, double or triple exponential smoothing ends with a level or a
  trend that is \<open>NaN\<close>, and the last historical value is not 0, the forecast is one value
  repeated over the whole horizon, and that value is not \<open>NaN\<close>: the last historical value
  when it is a number, else the value before it when that is a number, else 0. No value
  of the predictions in a result of the orchestrator is \<open>NaN\<close>, whatever the model.
\<close>

theorem smoothing_nan_fallback:
  assumes "map val data ! (length data - 1) \<noteq> Fin 0"
  shows "(3 \<le> length data
          \<and> isNaN (smoothedSeries (paramOr alphaArg (optimizeAlpha (map val data))) (map val data)
                     ! (length data - 1))
          \<longrightarrow> singleExponentialSmoothing data periods alphaArg
                = Inr (replicate (nat periods) (lastUsable (map val data))))
       \<and> (3 \<le> length data
          \<and> (isNaN (fst (holtSeries (paramOr alphaArg (optimizeAlpha (map val data)))
                            (paramOr betaArg (optimizeBeta (map val data)
                                                (paramOr alphaArg (optimizeAlpha (map val data)))))
                            (map val data)) ! (length data - 1))
             \<or> isNaN (snd (holtSeries (paramOr alphaArg (optimizeAlpha (map val data)))
                            (paramOr betaArg (optimizeBeta (map val data)
                                                (paramOr alphaArg (optimizeAlpha (map val data)))))
                            (map val data)) ! (length data - 1)))
          \<longrightarrow> doubleExponentialSmoothing data periods alphaArg betaArg
                = Inr (replicate (nat periods) (lastUsable (map val data))))
       \<and> (seasonLength * 2 \<le> length data
          \<and> (isNaN (fst (holtWintersSeries (paramOr alphaArg (Fin (3 / 10))) (paramOr betaArg (Fin (1 / 10)))
                            (paramOr gammaArg (Fin (3 / 10))) seasonLength (map val data))
                       ! (length data - 1))
             \<or> isNaN (fst (snd (holtWintersSeries (paramOr alphaArg (Fin (3 / 10)))
                            (paramOr betaArg (Fin (1 / 10))) (paramOr gammaArg (Fin (3 / 10)))
                            seasonLength (map val data)))
                       ! (length data - 1)))
          \<longrightarrow> tripleExponentialSmoothing data periods seasonLength alphaArg betaArg gammaArg
                = Inr (replicate (nat periods) (lastUsable (map val data))))
       \<and> lastUsable (map val data) \<noteq> NaN
       \<and> (generatePrediction hist periods modelName interval fmt params = Inr r
          \<longrightarrow> (\<forall>p\<in>set (predictions r). val p \<noteq> NaN))"
proof -
  have l: "map val data ! (length (map val data) - 1) \<noteq> Fin 0"
    using assms by simp
  note f = fallback_design [OF l]
  have a: "3 \<le> length data
          \<and> isNaN (smoothedSeries (paramOr alphaArg (optimizeAlpha (map val data))) (map val data)
                     ! (length data - 1))
          \<longrightarrow> singleExponentialSmoothing data periods alphaArg
                = Inr (replicate (nat periods) (lastUsable (map val data)))"
    by (simp add: singleExponentialSmoothing_def Let_def f)
  have b: "3 \<le> length data
          \<and> (isNaN (fst (holtSeries (paramOr alphaArg (optimizeAlpha (map val data)))
                            (paramOr betaArg (optimizeBeta (map val data)
                                                (paramOr alphaArg (optimizeAlpha (map val data)))))
                            (map val data)) ! (length data - 1))
             \<or> isNaN (snd (holtSeries (paramOr alphaArg (optimizeAlpha (map val data)))
                            (paramOr betaArg (optimizeBeta (map val data)
                                                (paramOr alphaArg (optimizeAlpha (map val data)))))
                            (map val data)) ! (length data - 1)))
          \<longrightarrow> doubleExponentialSmoothing data periods alphaArg betaArg
                = Inr (replicate (nat periods) (lastUsable (map val data)))"
    by (auto simp: doubleExponentialSmoothing_def Let_def f split: prod.splits)
  have c: "seasonLength * 2 \<le> length data
          \<and> (isNaN (fst (holtWintersSeries (paramOr alphaArg (Fin (3 / 10))) (paramOr betaArg (Fin (1 / 10)))
                            (paramOr gammaArg (Fin (3 / 10))) seasonLength (map val data))
                       ! (length data - 1))
             \<or> isNaN (fst (snd (holtWintersSeries (paramOr alphaArg (Fin (3 / 10)))
                            (paramOr betaArg (Fin (1 / 10))) (paramOr gammaArg (Fin (3 / 10)))
                            seasonLength (map val data)))
                       ! (length data - 1)))
          \<longrightarrow> tripleExponentialSmoothing data periods seasonLength alphaArg betaArg gammaArg
                = Inr (replicate (nat periods) (lastUsable (map val data)))"
    by (auto simp: tripleExponentialSmoothing_def Let_def f split: prod.splits)
  have d: "generatePrediction hist periods modelName interval fmt params = Inr r
          \<longrightarrow> (\<forall>p\<in>set (predictions r). val p \<noteq> NaN)"
    using predictions_not_NaN by blast
  show ?thesis using a b c d lastUsable_not_NaN by (intro conjI)
qed

text \<open>Evaluation of the smoothing functions on small series.\<close>

lemmas evals = upt_rec numeral_3_eq_3 numeral_2_eq_2 Let_def elemAt_def isNaN_def
  less_eq_jsnum_def minus_jsnum_def

lemma optimizeAlpha_example: "optimizeAlpha [Fin 7, NaN, NaN] = Fin (3 / 10)"
  by (simp add: optimizeAlpha_def smoothedSeries_def testWindowMse_def evals)

lemma smoothed_example: "smoothedSeries (Fin (3 / 10)) [Fin 7, NaN, NaN] = [Fin 7, NaN, NaN]"
  by (simp add: smoothedSeries_def evals)

lemma detectTrend_example: "\<not> detectTrend [\<lparr>time = 2020, val = Fin 7\<rparr>, \<lparr>time = 2021, val = NaN\<rparr>, \<lparr>time = 2022, val = NaN\<rparr>]"
  by (simp add: detectTrend_def linearSums_def maxOf_def minOf_def enumerate_eq_zip evals)

lemma single_example: "singleExponentialSmoothing
     [\<lparr>time = 2020, val = Fin 7\<rparr>, \<lparr>time = 2021, val = NaN\<rparr>, \<lparr>time = 2022, val = NaN\<rparr>] 2 None
   = Inr [Fin 0, Fin 0]"
  by (simp add: singleExponentialSmoothing_def paramOr_def optimizeAlpha_example smoothed_example fallbackPredictions_def orElse_def
        truthy_def evals)

lemma orchestrator_example: "generatePrediction
     [\<lparr>time = 2020, val = Fin 7\<rparr>, \<lparr>time = 2021, val = NaN\<rparr>, \<lparr>time = 2022, val = NaN\<rparr>]
     2 ''exponential'' 1 ''year'' noParams
   = Inr \<lparr>predictions = [\<lparr>time = 2023, val = Fin 0, isPrediction = True\<rparr>,
                          \<lparr>time = 2024, val = Fin 0, isPrediction = True\<rparr>],
          historicalData = [\<lparr>time = 2020, val = Fin 7, isPrediction = False\<rparr>,
                             \<lparr>time = 2021, val = NaN, isPrediction = False\<rparr>,
                             \<lparr>time = 2022, val = NaN, isPrediction = False\<rparr>],
          statistics = \<lparr>avgValue = NaN, lastValue = NaN, predictedValue = Some (Fin 0),
                         growthRate = Some NaN, truncatedCount = 0\<rparr>,
          timeInterval = 1, timeFormat = ''year'', model = ''exponential''\<rparr>"
  by (simp add: generatePrediction_def dispatchModel_def exponentialSmoothing_def noParams_def
        strOr_def natOr_def detectTrend_example single_example jsum_def nextTime_def enumerate_eq_zip evals)

lemma lastValid_example: "lastValid [Fin 7, NaN, NaN] = Some (Fin 7)"
  by (simp add: lastValid_def)


lemma optimizeAlpha_example_nan_first: "optimizeAlpha [NaN, Fin 5, NaN] = Fin (3 / 10)"
  by (simp add: optimizeAlpha_def smoothedSeries_def testWindowMse_def evals)

lemma smoothed_example_nan_first: "smoothedSeries (Fin (3 / 10)) [NaN, Fin 5, NaN] = [NaN, NaN, NaN]"
  by (simp add: smoothedSeries_def evals)

lemma holtWinters_example: "holtWintersSeries (Fin (3 / 10)) (Fin (1 / 10)) (Fin (3 / 10)) (Suc 0) [Fin 1, Fin 5, Fin 2]
            = ([Fin 1, NaN, NaN], [NaN, NaN, NaN], [NaN])"
  by (simp add: holtWintersSeries_def phaseMean_def jsum_def evals)

lemma holtWinters_example_zero_last: "holtWintersSeries (Fin (3 / 10)) (Fin (1 / 10)) (Fin (3 / 10)) (Suc 0) [Fin 1, Fin 5, Fin 0]
            = ([Fin 1, NaN, NaN], [NaN, NaN, NaN], [NaN])"
  by (simp add: holtWintersSeries_def phaseMean_def jsum_def evals)

text \<open>
  With finite values, the seed of the trend in \<open>tripleExponentialSmoothing\<close> divides by
  \<open>seasonal[seasonLength]\<close>, one past the end of the array, so that level and trend are
  \<open>NaN\<close> and the fallback is taken; \<open>||\<close> then skips a last value 0.
\<close>

lemma triple_zero_last:
  "tripleExponentialSmoothing
     [\<lparr>time = 2020, val = Fin 1\<rparr>, \<lparr>time = 2021, val = Fin 5\<rparr>, \<lparr>time = 2022, val = Fin 0\<rparr>]
     2 1 None None None = Inr [Fin 5, Fin 5]"
  by (simp add: tripleExponentialSmoothing_def paramOr_def holtWinters_example_zero_last fallbackPredictions_def orElse_def
        truthy_def evals)

theorem smoothing_nan_fallback_witness:
  "singleExponentialSmoothing
     [\<lparr>time = 2020, val = NaN\<rparr>, \<lparr>time = 2021, val = Fin 5\<rparr>, \<lparr>time = 2022, val = NaN\<rparr>] 2 None
     = Inr [Fin 5, Fin 5]
   \<and> tripleExponentialSmoothing
       [\<lparr>time = 2020, val = Fin 1\<rparr>, \<lparr>time = 2021, val = Fin 5\<rparr>, \<lparr>time = 2022, val = Fin 2\<rparr>]
       2 1 None None None = Inr [Fin 2, Fin 2]"
proof -
  let ?A = "[\<lparr>time = 2020, val = NaN\<rparr>, \<lparr>time = 2021, val = Fin 5\<rparr>, \<lparr>time = 2022, val = NaN\<rparr>]"
  let ?B = "[\<lparr>time = 2020, val = Fin 1\<rparr>, \<lparr>time = 2021, val = Fin 5\<rparr>, \<lparr>time = 2022, val = Fin 2\<rparr>]"
  have a: "map val ?A ! (length ?A - 1) \<noteq> Fin 0" by simp
  have b: "map val ?B ! (length ?B - 1) \<noteq> Fin 0" by simp
  have ua: "lastUsable [NaN, Fin 5, NaN] = Fin 5" by (simp add: lastUsable_def)
  have ub: "lastUsable [Fin 1, Fin 5, Fin 2] = Fin 2" by (simp add: lastUsable_def)
  have "singleExponentialSmoothing ?A 2 None = Inr [Fin 5, Fin 5]"
    using smoothing_nan_fallback [where data = ?A and alphaArg = None and periods = 2, OF a, THEN conjunct1]
    by (simp add: paramOr_def optimizeAlpha_example_nan_first smoothed_example_nan_first ua isNaN_def numeral_2_eq_2)
  moreover have "tripleExponentialSmoothing ?B 2 1 None None None = Inr [Fin 2, Fin 2]"
    using smoothing_nan_fallback [where data = ?B and alphaArg = None and betaArg = None and gammaArg = None
            and seasonLength = 1 and periods = 2, OF b, THEN conjunct2, THEN conjunct2, THEN conjunct1]
    by (simp add: paramOr_def holtWinters_example ub isNaN_def numeral_2_eq_2)
  ultimately show ?thesis by (rule conjI)
qed


text \<open>
  C5, as the claim states it, fails. For the values 7, \<open>NaN\<close>, \<open>NaN\<close> the last smoothed
  value is \<open>NaN\<close> and the last valid historical value is 7, but the forecast is 0
  repeated; and the statistics of the orchestrator's result hold \<open>NaN\<close>.
\<close>

theorem smoothing_fallback_counterexample:
  "lastValid [Fin 7, NaN, NaN] = Some (Fin 7)
   \<and> isNaN (smoothedSeries (optimizeAlpha [Fin 7, NaN, NaN]) [Fin 7, NaN, NaN] ! 2)
   \<and> singleExponentialSmoothing
       [\<lparr>time = 2020, val = Fin 7\<rparr>, \<lparr>time = 2021, val = NaN\<rparr>, \<lparr>time = 2022, val = NaN\<rparr>] 2 None
     = Inr [Fin 0, Fin 0]
   \<and> generatePrediction
       [\<lparr>time = 2020, val = Fin 7\<rparr>, \<lparr>time = 2021, val = NaN\<rparr>, \<lparr>time = 2022, val = NaN\<rparr>]
       2 ''exponential'' 1 ''year'' noParams
     = Inr \<lparr>predictions = [\<lparr>time = 2023, val = Fin 0, isPrediction = True\<rparr>,
                            \<lparr>time = 2024, val = Fin 0, isPrediction = True\<rparr>],
            historicalData = [\<lparr>time = 2020, val = Fin 7, isPrediction = False\<rparr>,
                               \<lparr>time = 2021, val = NaN, isPrediction = False\<rparr>,
                               \<lparr>time = 2022, val = NaN, isPrediction = False\<rparr>],
            statistics = \<lparr>avgValue = NaN, lastValue = NaN, predictedValue = Some (Fin 0),
                           growthRate = Some NaN, truncatedCount = 0\<rparr>,
            timeInterval = 1, timeFormat = ''year'', model = ''exponential''\<rparr>"
  using lastValid_example optimizeAlpha_example smoothed_example single_example orchestrator_example by (simp add: isNaN_def)

end
